theory Spec2Isabelle
  imports Complex_Main "HOL-Library.AList" "HOL-Library.Log_Nat"
begin

section \<open>JavaScript values used by the services\<close>

text \<open>
  The services are JavaScript. The cost estimator reads fields of the request's
  \<open>promptData\<close> object with \<open>||\<close>, \<open>*\<close>, \<open>Math.ceil\<close> and \<open>Math.max\<close>, so the
  part of the language those operators touch is written out: truthiness, the numeric
  conversion applied by \<open>*\<close>, NaN, the infinities, and the rounding of a product to a
  double.

  A number is NaN, an infinity or a finite value. The sign of zero is left out: no
  operation used here depends on it.
\<close>

datatype 'a js_num = NaN | PosInf | NegInf | Fin 'a

type_synonym js_number = "rat js_num"

subsection \<open>Doubles: IEEE 754 binary64, round to nearest, ties to even\<close>

definition round_half_even :: "rat \<Rightarrow> int" where
  "round_half_even x =
     (let f = \<lfloor>x\<rfloor>; d = x - of_int f
      in if d < 1 / 2 then f else if 1 / 2 < d then f + 1 else if even f then f else f + 1)"

text \<open>For \<open>x > 0\<close>, the exponent \<open>e\<close> with \<open>2^e \<le> x < 2^(e+1)\<close>.\<close>

definition ilog2 :: "rat \<Rightarrow> int" where
  "ilog2 x =
     (if 1 \<le> x then bitlen \<lfloor>x\<rfloor> - 1
      else - bitlen (\<lceil>1 / x\<rceil> - 1))"

text \<open>
  The double nearest to \<open>x\<close>: 53 significant bits, the exponent not below that of the
  subnormal numbers, and an infinity when the rounded value reaches \<open>2^1024\<close>.
\<close>

definition fl :: "rat \<Rightarrow> js_number" where
  "fl x =
     (if x = 0 then Fin 0
      else
        let e = max (ilog2 \<bar>x\<bar>) (- 1022);
            ulp = 2 powi (e - 52);
            r = of_int (round_half_even (\<bar>x\<bar> / ulp)) * ulp
        in if 2 ^ 1024 \<le> r then (if 0 < x then PosInf else NegInf)
           else Fin (sgn x * r))"

text \<open>
  The product of two numbers: NaN if one of them is NaN or the product is
  \<open>0 * Infinity\<close>, an infinity of the product's sign if one of them is infinite, and the
  rounded product otherwise.
\<close>

fun num_sign :: "js_number \<Rightarrow> int" where
  "num_sign NaN = 0"
| "num_sign PosInf = 1"
| "num_sign NegInf = - 1"
| "num_sign (Fin q) = (if q = 0 then 0 else if 0 < q then 1 else - 1)"

definition num_mul :: "js_number \<Rightarrow> js_number \<Rightarrow> js_number" where
  "num_mul a b =
     (case (a, b) of
        (NaN, _) \<Rightarrow> NaN
      | (_, NaN) \<Rightarrow> NaN
      | (Fin x, Fin y) \<Rightarrow> fl (x * y)
      | _ \<Rightarrow>
          (let s = num_sign a * num_sign b
           in if s = 0 then NaN else if 0 < s then PosInf else NegInf))"

subsection \<open>Values\<close>

text \<open>
  A value is \<open>undefined\<close>, \<open>null\<close>, a boolean, a number, or \<open>Object\<close>: an object or
  function whose numeric conversion is NaN (a plain object such as \<open>{}\<close>, or a built-in
  function). Strings and arrays as field values are outside the model. A numeric literal
  of the source denotes the double nearest to its decimal value.
\<close>

datatype js_value = Undefined | Null | Boolean bool | Number js_number | Object

definition lit :: "rat \<Rightarrow> js_value" where
  "lit q = Number (fl q)"

fun truthy :: "js_value \<Rightarrow> bool" where
  "truthy Undefined = False"
| "truthy Null = False"
| "truthy (Boolean b) = b"
| "truthy (Number NaN) = False"
| "truthy (Number (Fin q)) = (q \<noteq> 0)"
| "truthy (Number PosInf) = True"
| "truthy (Number NegInf) = True"
| "truthy Object = True"

text \<open>\<open>a || b\<close>\<close>

definition js_or :: "js_value \<Rightarrow> js_value \<Rightarrow> js_value" where
  "js_or a b = (if truthy a then a else b)"

fun ToNumber :: "js_value \<Rightarrow> js_number" where
  "ToNumber Undefined = NaN"
| "ToNumber Null = Fin 0"
| "ToNumber (Boolean b) = Fin (if b then 1 else 0)"
| "ToNumber (Number n) = n"
| "ToNumber Object = NaN"

text \<open>\<open>a * b\<close>: both operands are converted to numbers.\<close>

definition js_mul :: "js_value \<Rightarrow> js_value \<Rightarrow> js_value" where
  "js_mul a b = Number (num_mul (ToNumber a) (ToNumber b))"

text \<open>
  \<open>Math.ceil\<close> yields an integer, an infinity or NaN, and \<open>Math.max\<close> of it and the
  integer 100 likewise.
\<close>

definition Math_ceil :: "js_value \<Rightarrow> int js_num" where
  "Math_ceil v =
     (case ToNumber v of
        NaN \<Rightarrow> NaN
      | PosInf \<Rightarrow> PosInf
      | NegInf \<Rightarrow> NegInf
      | Fin q \<Rightarrow> Fin \<lceil>q\<rceil>)"

definition Math_max :: "int js_num \<Rightarrow> int \<Rightarrow> int js_num" where
  "Math_max a b =
     (case a of
        NaN \<Rightarrow> NaN
      | PosInf \<Rightarrow> PosInf
      | NegInf \<Rightarrow> Fin b
      | Fin x \<Rightarrow> Fin (max x b))"

text \<open>
  \<open>table[key]\<close> on an object literal: an own property, else a property inherited from
  \<open>Object.prototype\<close> (a built-in function, or the prototype object itself for
  \<open>__proto__\<close>), else \<open>undefined\<close>.
\<close>

definition object_prototype_properties :: "string list" where
  "object_prototype_properties =
     [''constructor'', ''__defineGetter__'', ''__defineSetter__'', ''hasOwnProperty'',
      ''__lookupGetter__'', ''__lookupSetter__'', ''isPrototypeOf'',
      ''propertyIsEnumerable'', ''toString'', ''valueOf'', ''__proto__'',
      ''toLocaleString'']"

definition get_property :: "(string \<times> js_value) list \<Rightarrow> string \<Rightarrow> js_value" where
  "get_property obj key =
     (case map_of obj key of
        Some v \<Rightarrow> v
      | None \<Rightarrow> if key \<in> set object_prototype_properties then Object else Undefined)"


section \<open>CreditService.estimateGenerationCost\<close>

text \<open>
  The fields of \<open>promptData\<close> the estimator reads. An absent field is \<open>Undefined\<close>;
  \<open>model\<close> is the property key the lookup uses (\<open>None\<close> when the field is absent).
\<close>

record prompt_data =
  wordCount :: js_value
  model :: "string option"
  seoOptimize :: js_value

definition typeMultipliers :: "(string \<times> js_value) list" where
  "typeMultipliers =
     [(''blog'', lit 1),
      (''product'', lit (8 / 10)),
      (''social'', lit (5 / 10)),
      (''email'', lit (7 / 10)),
      (''custom'', lit (12 / 10))]"

definition modelMultipliers :: "(string \<times> js_value) list" where
  "modelMultipliers =
     [(''gpt-4'', lit (15 / 10)),
      (''gpt-3.5-turbo'', lit 1),
      (''default'', lit 1)]"

definition estimateGenerationCost :: "prompt_data \<Rightarrow> string \<Rightarrow> int js_num" where
  "estimateGenerationCost promptData contentType =
     (let requestedWordCount = js_or (wordCount promptData) (lit 1000);
          multiplier = js_or (get_property typeMultipliers contentType) (lit 1);
          modelMultiplier =
            js_or (case model promptData of
                     None \<Rightarrow> Undefined
                   | Some m \<Rightarrow> get_property modelMultipliers m)
                  (get_property modelMultipliers ''default'');
          seoMultiplier = (if truthy (seoOptimize promptData) then lit (12 / 10) else lit 1);
          estimatedCost =
            Math_ceil (js_mul (js_mul (js_mul requestedWordCount multiplier) modelMultiplier)
                         seoMultiplier)
      in Math_max estimatedCost 100)"


section \<open>QueueService\<close>

subsection \<open>Messages and the broker\<close>

text \<open>
  A job message as the controllers build it: \<open>message.id\<close> (publishing and scheduling
  jobs), \<open>message.generationId\<close> (generation jobs) and the rest of the payload.
\<close>

record queue_message =
  msg_id :: "string option"
  msg_generationId :: "string option"
  msg_userId :: string
  msg_contentItemId :: string

record message_headers =
  x_retry_count :: "nat option"
  x_original_queue :: "string option"

record amqp_properties =
  persistent :: bool
  messageId :: "string option"
  headers :: "message_headers option"

text \<open>
  A message on the wire. \<open>content\<close> is the buffer: \<open>Some m\<close> is the JSON text of \<open>m\<close>
  (what \<open>enqueue\<close> writes), \<open>None\<close> a buffer that \<open>JSON.parse\<close> rejects.
\<close>

record amqp_msg =
  content :: "queue_message option"
  properties :: amqp_properties

text \<open>
  The broker as the channel sees it: the messages sent with \<open>sendToQueue\<close> and not yet
  acknowledged, under the queue name they were sent to, and the messages rejected with
  \<open>nack(msg, false, false)\<close>, which the broker routes to the dead-letter exchange of
  the queue they were consumed from.
\<close>

record broker =
  published :: "(string \<times> amqp_msg) list"
  dead_letters :: "(string \<times> amqp_msg) list"

text \<open>
  What the environment decides in one call: whether \<open>amqp.connect\<close> (with
  \<open>createChannel\<close> and the queue set-up) succeeds, and whether \<open>sendToQueue\<close> on an
  open channel succeeds.
\<close>

record broker_env =
  connect_ok :: bool
  send_ok :: bool

datatype js_error =
    Error string
  | TypeError
  | AmqpConnectError
  | AmqpSendError
  | UniqueConstraintError

subsection \<open>Connection state\<close>

text \<open>
  The singleton's fields. \<open>channel\<close> is \<open>True\<close> when \<open>this.channel\<close> is a channel
  and \<open>False\<close> when it is \<open>null\<close>. \<open>queues\<close> is the object \<open>this.queues\<close>, as its own
  properties. \<open>reconnectTimeout\<close> is the delay (ms) of the pending reconnect timer.
\<close>

record queue_service =
  connected :: bool
  connecting :: bool
  channel :: bool
  queues :: "(string \<times> js_value) list"
  reconnectAttempts :: nat
  reconnectTimeout :: "rat option"

definition queueDefinitions :: "string list" where
  "queueDefinitions = [''content-generation'', ''content-publishing'', ''notification'']"

definition maxReconnectAttempts :: nat where
  "maxReconnectAttempts = 10"

definition reconnectDelay :: rat where
  "reconnectDelay = 5000"

definition new_QueueService :: queue_service where
  "new_QueueService =
     \<lparr>connected = False, connecting = False, channel = False, queues = [],
      reconnectAttempts = 0, reconnectTimeout = None\<rparr>"

definition handleConnectionError :: "queue_service \<Rightarrow> queue_service" where
  "handleConnectionError s =
     (let s1 = s\<lparr>connected := False, channel := False, reconnectTimeout := None\<rparr>
      in if reconnectAttempts s1 < maxReconnectAttempts
         then s1\<lparr>reconnectTimeout :=
                    Some (min 30000 (reconnectDelay * (3 / 2) ^ reconnectAttempts s1)),
                 reconnectAttempts := reconnectAttempts s1 + 1\<rparr>
         else s1)"

text \<open>\<open>setupQueues\<close>: \<open>this.queues[queueName] = true\<close> for each definition, in order.\<close>

fun setupQueues :: "string list \<Rightarrow> (string \<times> js_value) list \<Rightarrow> (string \<times> js_value) list" where
  "setupQueues [] qs = qs"
| "setupQueues (queueName # rest) qs =
     setupQueues rest (AList.update queueName (Boolean True) qs)"

definition connect :: "broker_env \<Rightarrow> queue_service \<Rightarrow> js_error option \<times> queue_service" where
  "connect env s =
     (if connected s \<or> connecting s then (None, s)
      else if connect_ok env
      then (None, s\<lparr>channel := True, queues := setupQueues queueDefinitions (queues s),
                     connected := True, connecting := False, reconnectAttempts := 0\<rparr>)
      else (Some AmqpConnectError, handleConnectionError (s\<lparr>connecting := False\<rparr>)))"

definition ensureConnection :: "broker_env \<Rightarrow> queue_service \<Rightarrow> js_error option \<times> queue_service" where
  "ensureConnection env s = (if \<not> connected s then connect env s else (None, s))"

text \<open>\<open>a || b\<close> on optional strings: the empty string is falsy.\<close>

definition str_or :: "string option \<Rightarrow> string option \<Rightarrow> string option" where
  "str_or a b = (case a of Some x \<Rightarrow> (if x \<noteq> [] then Some x else b) | None \<Rightarrow> b)"

definition queue_not_defined :: "string \<Rightarrow> js_error" where
  "queue_not_defined queue = Error (''Queue '' @ queue @ '' is not defined'')"

text \<open>
  \<open>enqueue(queue, message)\<close>, with the default \<open>options = {}\<close> that every caller in
  the repository uses. It returns \<open>Inr True\<close> or the error thrown.
\<close>

definition enqueue ::
  "broker_env \<Rightarrow> string \<Rightarrow> queue_message \<Rightarrow> queue_service \<times> broker
     \<Rightarrow> (js_error + bool) \<times> queue_service \<times> broker" where
  "enqueue env queue message st =
     (case ensureConnection env (fst st) of
        (Some e, s) \<Rightarrow> (Inl e, s, snd st)
      | (None, s) \<Rightarrow>
          if \<not> truthy (get_property (queues s) queue)
          then (Inl (queue_not_defined queue), s, snd st)
          else if \<not> channel s then (Inl TypeError, s, snd st)
          else if \<not> send_ok env then (Inl AmqpSendError, s, snd st)
          else (Inr True, s,
                (snd st)\<lparr>published := published (snd st) @
                   [(queue,
                     \<lparr>content = Some message,
                      properties =
                        \<lparr>persistent = True,
                         messageId = str_or (msg_id message) (msg_generationId message),
                         headers = None\<rparr>\<rparr>)]\<rparr>))"


subsection \<open>The database the handlers work on\<close>

text \<open>
  The Sequelize models the generation pipeline reads and writes, as tables keyed the way
  the code looks them up: a credit account by \<open>userId\<close>, the others by \<open>id\<close>.
  \<open>status\<close> is the string of the ENUM column
  (\<open>queued\<close>, \<open>processing\<close>, \<open>completed\<close>, \<open>failed\<close>).
\<close>

record credit_account =
  creditsRemaining :: int
  creditsUsed :: int
  monthlyAllowance :: int

record content_generation =
  gen_userId :: string
  gen_contentItemId :: string
  gen_promptData :: prompt_data
  gen_aiProvider :: string
  status :: string
  estimatedCredits :: int
  gen_error :: "string option"

record content_item =
  item_userId :: string
  item_templateId :: "string option"
  item_title :: string
  item_contentType :: string
  item_status :: string
  item_generationId :: "string option"

record template =
  tmpl_userId :: string
  isPublic :: bool
  isSystem :: bool

record database =
  creditAccounts :: "string \<rightharpoonup> credit_account"
  contentGenerations :: "string \<rightharpoonup> content_generation"
  contentItems :: "string \<rightharpoonup> content_item"
  templates :: "string \<rightharpoonup> template"

subsection \<open>Consuming: acknowledgement, retry, dead letter\<close>






text \<open>A pending \<open>setTimeout\<close> of the retry path.\<close>

record retry_timer =
  timer_delay :: nat
  timer_queue :: string
  retryMessage :: amqp_msg
  timer_msg :: amqp_msg

record world =
  db :: database
  service :: queue_service
  mq :: broker
  timers :: "retry_timer list"










subsection \<open>Removing a queued message\<close>

text \<open>
  \<open>removeFromQueue\<close> registers a temporary consumer that acknowledges the messages
  matching the id and puts the others back, and tests \<open>found\<close> right after registering
  it, before any delivery has run its callback: the call throws in every case, and the
  matching messages leave the queue afterwards.
\<close>

definition matches_id :: "string \<Rightarrow> amqp_msg \<Rightarrow> bool" where
  "matches_id mid msg =
     (messageId (properties msg) = Some mid \<or>
      (case content msg of
         None \<Rightarrow> False
       | Some c \<Rightarrow> msg_id c = Some mid \<or> msg_generationId c = Some mid))"

definition removeFromQueue ::
  "broker_env \<Rightarrow> string \<Rightarrow> string \<Rightarrow> queue_service \<times> broker
     \<Rightarrow> (js_error + bool) \<times> queue_service \<times> broker" where
  "removeFromQueue env queue mid st =
     (case ensureConnection env (fst st) of
        (Some e, s) \<Rightarrow> (Inl e, s, snd st)
      | (None, s) \<Rightarrow>
          if \<not> truthy (get_property (queues s) queue)
          then (Inl (queue_not_defined queue), s, snd st)
          else if \<not> channel s then (Inl TypeError, s, snd st)
          else if filter (\<lambda>(q, m). q = queue) (published (snd st)) = []
          then (Inl (Error (''Queue '' @ queue @ '' is empty'')), s, snd st)
          else (Inl (Error (''Message '' @ mid @ '' not found in queue '' @ queue)), s,
                (snd st)\<lparr>published :=
                   filter (\<lambda>(q, m). \<not> (q = queue \<and> matches_id mid m)) (published (snd st))\<rparr>))"


section \<open>CreditService: the ledger operations\<close>

text \<open>Amounts are integers, as the INTEGER columns they are added to.\<close>

definition getCreditAccount :: "string \<Rightarrow> database \<Rightarrow> js_error + credit_account" where
  "getCreditAccount userId d =
     (case creditAccounts d userId of
        None \<Rightarrow> Inl (Error (''Credit account not found for user '' @ userId))
      | Some creditAccount \<Rightarrow> Inr creditAccount)"

definition hasEnoughCredits :: "string \<Rightarrow> int \<Rightarrow> database \<Rightarrow> js_error + bool" where
  "hasEnoughCredits userId requiredCredits d =
     (case getCreditAccount userId d of
        Inl e \<Rightarrow> Inl e
      | Inr creditAccount \<Rightarrow> Inr (creditsRemaining creditAccount \<ge> requiredCredits))"




section \<open>The generation controller\<close>

text \<open>
  What a handler does with the request: a JSON response with its status code, or an
  error passed to \<open>next\<close>. \<open>NotModelled\<close> marks the one path whose continuation is
  not in the source: an estimate that is NaN passes the credit check (every comparison
  with NaN is false) and is then written to INTEGER columns, and what the persistence
  layer does with it is not part of the repository.
\<close>

datatype body =
    ValidationErrors "string list"
  | ErrorBody string
  | InsufficientCredits string "int js_num" int
  | Queued string string string int string
  | Cancelled string string int

datatype result = Json nat body | Next js_error | NotModelled

text \<open>
  The request as the handler destructures it: \<open>validationErrors\<close> is
  \<open>validationResult(req).array()\<close>, \<open>req_userId\<close> is \<open>req.user.id\<close>, the rest is
  \<open>req.body\<close>, \<open>None\<close> for an absent field.
\<close>

record generation_request =
  validationErrors :: "string list"
  req_userId :: string
  req_title :: "string option"
  req_contentType :: "string option"
  req_templateId :: "string option"
  req_promptData :: prompt_data
  req_aiProvider :: "string option"
  req_isNewContent :: "bool option"
  req_contentItemId :: "string option"

definition str_truthy :: "string option \<Rightarrow> bool" where
  "str_truthy a = (case a of None \<Rightarrow> False | Some x \<Rightarrow> x \<noteq> [])"

definition str_default :: "string option \<Rightarrow> string \<Rightarrow> string" where
  "str_default a b = (case a of None \<Rightarrow> b | Some x \<Rightarrow> (if x \<noteq> [] then x else b))"

text \<open>\<open>ContentItem.findOne({ where: { id, userId } })\<close>\<close>

definition findContentItem :: "string \<Rightarrow> string \<Rightarrow> database \<Rightarrow> content_item option" where
  "findContentItem cid userId d =
     (case contentItems d cid of
        None \<Rightarrow> None
      | Some item \<Rightarrow> if item_userId item = userId then Some item else None)"

text \<open>\<open>Template.findOne\<close>: the id, and owned by the user or public or a system template.\<close>

definition findTemplate :: "string \<Rightarrow> string \<Rightarrow> database \<Rightarrow> template option" where
  "findTemplate tid userId d =
     (case templates d tid of
        None \<Rightarrow> None
      | Some t \<Rightarrow> if tmpl_userId t = userId \<or> isPublic t \<or> isSystem t then Some t else None)"

text \<open>\<open>ContentGeneration.findOne({ where: { id, userId } })\<close>\<close>

definition findGeneration :: "string \<Rightarrow> string \<Rightarrow> database \<Rightarrow> content_generation option" where
  "findGeneration gid userId d =
     (case contentGenerations d gid of
        None \<Rightarrow> None
      | Some g \<Rightarrow> if gen_userId g = userId then Some g else None)"

text \<open>\<open>creditAccount.creditsRemaining < estimatedCost\<close>, false when the estimate is NaN.\<close>

definition less_than_estimate :: "int \<Rightarrow> int js_num \<Rightarrow> bool" where
  "less_than_estimate x estimatedCost =
     (case estimatedCost of
        NaN \<Rightarrow> False
      | PosInf \<Rightarrow> True
      | NegInf \<Rightarrow> False
      | Fin c \<Rightarrow> x < c)"

text \<open>
  \<open>createGenerationRequest\<close>, in the order of the handler. \<open>uuid1\<close> and \<open>uuid2\<close> are the
  results of its two \<open>uuidv4()\<close> calls: the generation id, then the id of a new content
  item. A \<open>create\<close> under an id already in the table throws.

  First the look-ups that can end the request with 404: the content item to update
  (only when \<open>isNewContent\<close> is false and an id is given) and the template.
\<close>

definition request_contentType :: "generation_request \<Rightarrow> string" where
  "request_contentType req = (case req_contentType req of None \<Rightarrow> ''blog'' | Some t \<Rightarrow> t)"

definition request_isNewContent :: "generation_request \<Rightarrow> bool" where
  "request_isNewContent req = (case req_isNewContent req of None \<Rightarrow> True | Some b \<Rightarrow> b)"

definition existing_content_item :: "generation_request \<Rightarrow> database \<Rightarrow> result + string option" where
  "existing_content_item req d =
     (if \<not> request_isNewContent req \<and> str_truthy (req_contentItemId req)
      then (case req_contentItemId req of
              None \<Rightarrow> Inr None
            | Some cid \<Rightarrow>
                (case findContentItem cid (req_userId req) d of
                   None \<Rightarrow> Inl (Json 404 (ErrorBody ''Content item not found or access denied''))
                 | Some item \<Rightarrow> Inr (Some cid)))
      else Inr None)"

definition requested_template :: "generation_request \<Rightarrow> database \<Rightarrow> result + string option" where
  "requested_template req d =
     (if str_truthy (req_templateId req)
      then (case req_templateId req of
              None \<Rightarrow> Inr None
            | Some tid \<Rightarrow>
                (case findTemplate tid (req_userId req) d of
                   None \<Rightarrow> Inl (Json 404 (ErrorBody ''Template not found or access denied''))
                 | Some t \<Rightarrow> Inr (Some tid)))
      else Inr None)"

text \<open>
  \<open>ContentItem.create\<close> for new content; otherwise the content item found above, which
  is \<open>null\<close> when \<open>isNewContent\<close> is false and no id was given.
\<close>

definition create_content_item ::
  "string \<Rightarrow> string \<Rightarrow> generation_request \<Rightarrow> string option \<Rightarrow> string option \<Rightarrow> database
     \<Rightarrow> js_error + string option \<times> database" where
  "create_content_item generationId uuid2 req template contentItem d =
     (if request_isNewContent req
      then (if contentItems d uuid2 \<noteq> None then Inl UniqueConstraintError
            else Inr (Some uuid2,
                  d\<lparr>contentItems := (contentItems d)(uuid2 \<mapsto>
                     \<lparr>item_userId = req_userId req, item_templateId = template,
                      item_title = str_default (req_title req) ''Untitled Content'',
                      item_contentType = request_contentType req, item_status = ''draft'',
                      item_generationId = Some generationId\<rparr>)\<rparr>))
      else Inr (contentItem, d))"

text \<open>
  The generation record, the reservation and the queueing, with the response.
  \<open>contentItem.id\<close> throws a TypeError when the content item is \<open>null\<close>.
\<close>

definition create_and_queue ::
  "broker_env \<Rightarrow> string \<Rightarrow> generation_request \<Rightarrow> credit_account \<Rightarrow> int \<Rightarrow> string option
     \<Rightarrow> world \<Rightarrow> result \<times> world" where
  "create_and_queue env generationId req creditAccount estimatedCost contentItem w =
     (case contentItem of
        None \<Rightarrow> (Next TypeError, w)
      | Some contentItemId \<Rightarrow>
          if contentGenerations (db w) generationId \<noteq> None
          then (Next UniqueConstraintError, w)
          else
            let d2 = (db w)\<lparr>contentGenerations := (contentGenerations (db w))(generationId \<mapsto>
                       \<lparr>gen_userId = req_userId req, gen_contentItemId = contentItemId,
                        gen_promptData = req_promptData req,
                        gen_aiProvider = str_default (req_aiProvider req) ''default'',
                        status = ''queued'', estimatedCredits = estimatedCost,
                        gen_error = None\<rparr>)\<rparr>;
                d3 = d2\<lparr>creditAccounts := (creditAccounts d2)(req_userId req \<mapsto>
                       creditAccount\<lparr>creditsRemaining :=
                         creditsRemaining creditAccount - estimatedCost\<rparr>)\<rparr>
            in (case enqueue env ''content-generation''
                      \<lparr>msg_id = None, msg_generationId = Some generationId,
                       msg_userId = req_userId req, msg_contentItemId = contentItemId\<rparr>
                      (service w, mq w) of
                  (Inl e, s, b) \<Rightarrow> (Next e, w\<lparr>db := d3, service := s, mq := b\<rparr>)
                | (Inr ok, s, b) \<Rightarrow>
                    (Json 202 (Queued ''Content generation request queued successfully''
                                 generationId contentItemId estimatedCost ''queued''),
                     w\<lparr>db := d3, service := s, mq := b\<rparr>)))"

definition createGenerationRequest ::
  "broker_env \<Rightarrow> string \<Rightarrow> string \<Rightarrow> generation_request \<Rightarrow> world \<Rightarrow> result \<times> world" where
  "createGenerationRequest env uuid1 uuid2 req w =
     (if validationErrors req \<noteq> [] then (Json 400 (ValidationErrors (validationErrors req)), w)
      else
        (case existing_content_item req (db w) of
           Inl r \<Rightarrow> (r, w)
         | Inr contentItem \<Rightarrow>
        (case requested_template req (db w) of
           Inl r \<Rightarrow> (r, w)
         | Inr template \<Rightarrow>
        (case creditAccounts (db w) (req_userId req) of
           None \<Rightarrow> (Json 404 (ErrorBody ''Credit account not found''), w)
         | Some creditAccount \<Rightarrow>
        (let estimatedCost =
               estimateGenerationCost (req_promptData req) (request_contentType req)
         in
         if less_than_estimate (creditsRemaining creditAccount) estimatedCost
         then (Json 402 (InsufficientCredits ''Insufficient credits for this generation''
                           estimatedCost (creditsRemaining creditAccount)), w)
         else
        (case estimatedCost of
           Fin cost \<Rightarrow>
             (case create_content_item uuid1 uuid2 req template contentItem (db w) of
                Inl e \<Rightarrow> (Next e, w)
              | Inr (contentItem', d1) \<Rightarrow>
                  create_and_queue env uuid1 req creditAccount cost contentItem'
                    (w\<lparr>db := d1\<rparr>))
         | _ \<Rightarrow> (NotModelled, w)))))))"

text \<open>\<open>cancelGeneration\<close>, for \<open>req.params.id\<close> and \<open>req.user.id\<close>.\<close>

definition cancelGeneration :: "broker_env \<Rightarrow> string \<Rightarrow> string \<Rightarrow> world \<Rightarrow> result \<times> world" where
  "cancelGeneration env gid userId w =
     (case findGeneration gid userId (db w) of
        None \<Rightarrow> (Json 404 (ErrorBody ''Generation request not found''), w)
      | Some generation \<Rightarrow>
          if status generation \<noteq> ''queued''
          then (Json 400 (ErrorBody
                  ''Cannot cancel generation that is already processing or completed''), w)
          else
            let generation' = generation\<lparr>status := ''failed'',
                                          gen_error := Some ''Cancelled by user''\<rparr>;
                d1 = (db w)\<lparr>contentGenerations :=
                               (contentGenerations (db w))(gid \<mapsto> generation')\<rparr>;
                d2 = (case creditAccounts d1 userId of
                        None \<Rightarrow> d1
                      | Some creditAccount \<Rightarrow>
                          d1\<lparr>creditAccounts := (creditAccounts d1)(userId \<mapsto>
                               creditAccount\<lparr>creditsRemaining :=
                                 creditsRemaining creditAccount + estimatedCredits generation'\<rparr>)\<rparr>)
            in case removeFromQueue env ''content-generation'' gid (service w, mq w) of
                 (r, s, b) \<Rightarrow>
                   (Json 200 (Cancelled ''Generation request cancelled successfully'' gid
                                (estimatedCredits generation')),
                    w\<lparr>db := d2, service := s, mq := b\<rparr>))"


section \<open>Ledger operations in sequence\<close>








section \<open>The statements of the specification, for comparison\<close>

text \<open>
  The specification classifies a failure as transient or permanent. The consumer's
  handler may reject with any value; \<open>reject_with\<close> is the handler that rejects every
  job with a given one and leaves the database as it is.
\<close>

datatype error_kind = Transient | Permanent


text \<open>
  The estimate in the words of the specification: the requested word count (default
  1000) times the multipliers of the content type and the model (unknown ones count 1)
  and of SEO optimisation, rounded up, at least 100. The numbers are doubles and
  \<open>times\<close> is their product, taken from left to right.
\<close>

definition spec_word_count :: "js_value \<Rightarrow> js_number" where
  "spec_word_count v =
     (case v of
        Number NaN \<Rightarrow> fl 1000
      | Number (Fin q) \<Rightarrow> (if q = 0 then fl 1000 else Fin q)
      | Number n \<Rightarrow> n
      | Boolean True \<Rightarrow> Fin 1
      | _ \<Rightarrow> fl 1000)"

definition spec_type_multiplier :: "string \<Rightarrow> rat" where
  "spec_type_multiplier t =
     (if t = ''blog'' then 1 else if t = ''product'' then 8 / 10
      else if t = ''social'' then 5 / 10 else if t = ''email'' then 7 / 10
      else if t = ''custom'' then 12 / 10 else 1)"

definition spec_model_multiplier :: "string option \<Rightarrow> rat" where
  "spec_model_multiplier m = (if m = Some ''gpt-4'' then 15 / 10 else 1)"

definition spec_seo_multiplier :: "js_value \<Rightarrow> rat" where
  "spec_seo_multiplier v = (if truthy v then 12 / 10 else 1)"

definition spec_product :: "prompt_data \<Rightarrow> string \<Rightarrow> js_number" where
  "spec_product promptData contentType =
     num_mul
       (num_mul
          (num_mul (spec_word_count (wordCount promptData))
             (fl (spec_type_multiplier contentType)))
          (fl (spec_model_multiplier (model promptData))))
       (fl (spec_seo_multiplier (seoOptimize promptData)))"

definition spec_cost :: "prompt_data \<Rightarrow> string \<Rightarrow> int js_num" where
  "spec_cost promptData contentType =
     (case spec_product promptData contentType of
        NaN \<Rightarrow> NaN
      | PosInf \<Rightarrow> PosInf
      | NegInf \<Rightarrow> Fin 100
      | Fin q \<Rightarrow> Fin (max \<lceil>q\<rceil> 100))"

text \<open>The magnitude of a number is at most \<open>b\<close>.\<close>

definition magnitude_le :: "js_value \<Rightarrow> rat \<Rightarrow> bool" where
  "magnitude_le v b =
     (case v of
        Number (Fin q) \<Rightarrow> \<bar>q\<bar> \<le> b
      | Number PosInf \<Rightarrow> False
      | Number NegInf \<Rightarrow> False
      | _ \<Rightarrow> True)"

definition inherited_key :: "string \<Rightarrow> bool" where
  "inherited_key k = (k \<in> set object_prototype_properties)"

text \<open>
  The service's \<open>queues\<close> object holds no name beyond the declared definitions: true
  of a new service, and kept by every operation.
\<close>

definition declared_only :: "queue_service \<Rightarrow> bool" where
  "declared_only s = (fst ` set (queues s) \<subseteq> set queueDefinitions)"

text \<open>The request gets as far as the credit check.\<close>

definition reaches_credit_check :: "generation_request \<Rightarrow> database \<Rightarrow> bool" where
  "reaches_credit_check req d =
     (validationErrors req = [] \<and> \<not> isl (existing_content_item req d)
      \<and> \<not> isl (requested_template req d))"


section \<open>Example states\<close>

text \<open>
  A user with 1000 credits, an idle queue service, a reachable broker, and a request
  for 300 words of a new blog post: the estimate is 300.
\<close>

definition account_1000 :: credit_account where
  "account_1000 = \<lparr>creditsRemaining = 1000, creditsUsed = 0, monthlyAllowance = 1000\<rparr>"

definition world_0 :: world where
  "world_0 =
     \<lparr>db = \<lparr>creditAccounts = [''user-1'' \<mapsto> account_1000], contentGenerations = Map.empty,
            contentItems = Map.empty, templates = Map.empty\<rparr>,
      service = new_QueueService,
      mq = \<lparr>published = [], dead_letters = []\<rparr>,
      timers = []\<rparr>"

definition request_300 :: generation_request where
  "request_300 =
     \<lparr>validationErrors = [], req_userId = ''user-1'', req_title = None,
      req_contentType = None, req_templateId = None,
      req_promptData = \<lparr>wordCount = Number (Fin 300), model = None, seoOptimize = Undefined\<rparr>,
      req_aiProvider = None, req_isNewContent = None, req_contentItemId = None\<rparr>"

definition broker_up :: broker_env where
  "broker_up = \<lparr>connect_ok = True, send_ok = True\<rparr>"

definition broker_down :: broker_env where
  "broker_down = \<lparr>connect_ok = False, send_ok = False\<rparr>"


text \<open>The message of generation \<open>gen-1\<close>, as first published and with a retry count.\<close>

definition job_1 :: queue_message where
  "job_1 = \<lparr>msg_id = None, msg_generationId = Some ''gen-1'', msg_userId = ''user-1'',
            msg_contentItemId = ''item-1''\<rparr>"

definition first_delivery :: amqp_msg where
  "first_delivery =
     \<lparr>content = Some job_1,
      properties = \<lparr>persistent = True, messageId = Some ''gen-1'', headers = None\<rparr>\<rparr>"





text \<open>
  The example request submitted with the broker up, and the generation record it
  creates; the same state with the one message \<open>m\<close> pending; and the run in which
  every delivery of the job is rejected.
\<close>

definition world_1 :: world where
  "world_1 = snd (createGenerationRequest broker_up ''gen-1'' ''item-1'' request_300 world_0)"

definition gen_1 :: content_generation where
  "gen_1 = \<lparr>gen_userId = ''user-1'', gen_contentItemId = ''item-1'',
            gen_promptData = req_promptData request_300, gen_aiProvider = ''default'',
            status = ''queued'', estimatedCredits = 300, gen_error = None\<rparr>"




text \<open>
  A request for 1500 words, more than the 1000 credits of the account; a broker that
  accepts connections and refuses to publish; the timer of the first retry; and a
  sequence of ledger operations.
\<close>

definition request_1500 :: generation_request where
  "request_1500 =
     request_300\<lparr>req_promptData :=
       \<lparr>wordCount = Number (Fin 1500), model = None, seoOptimize = Undefined\<rparr>\<rparr>"





section \<open>Double-precision arithmetic\<close>

text \<open>
  JavaScript numbers are IEEE 754 doubles. \<open>fl\<close> rounds a rational to the nearest double,
  ties to even, and overflows to an infinity from \<open>2 ^ 1024\<close> on. The lemmas below give
  the exponent of a rational, the rule by which a rounding is computed, the doubles of
  the literals of the estimator, and the bound \<open>\<bar>fl x\<bar> \<le> 2 * \<bar>x\<bar> + 1\<close> below the
  overflow threshold.
\<close>

lemma ilog2_bounds:
  assumes "0 < x"
  shows "2 powi (ilog2 x) \<le> x \<and> x < 2 powi (ilog2 x + 1)"
proof (cases "1 \<le> x")
  case True
  then have pos: "0 < \<lfloor>x\<rfloor>" by linarith
  define k where "k = bitlen \<lfloor>x\<rfloor>"
  have k1: "1 \<le> k" using pos by (simp add: k_def bitlen_alt_def)
  have b: "2 ^ nat (k - 1) \<le> \<lfloor>x\<rfloor>" "\<lfloor>x\<rfloor> < 2 ^ nat k"
    using bitlen_bounds [OF pos] by (simp_all add: k_def)
  have lo: "(2::rat) ^ nat (k - 1) \<le> x"
  proof -
    have "(of_int (2 ^ nat (k - 1)) :: rat) \<le> of_int \<lfloor>x\<rfloor>" using b(1) by (simp only: of_int_le_iff)
    also have "\<dots> \<le> x" by simp
    finally show ?thesis by simp
  qed
  have hi: "x < (2::rat) ^ nat k"
  proof -
    have "\<lfloor>x\<rfloor> + 1 \<le> 2 ^ nat k" using b(2) by simp
    then have "(of_int (\<lfloor>x\<rfloor> + 1) :: rat) \<le> of_int (2 ^ nat k)" by (simp only: of_int_le_iff)
    moreover have "x < of_int (\<lfloor>x\<rfloor> + 1)" by linarith
    ultimately show ?thesis by simp
  qed
  have e: "ilog2 x = k - 1" using True by (simp add: ilog2_def k_def)
  have p1: "(2::rat) powi (k - 1) = 2 ^ nat (k - 1)" using k1 by (simp add: power_int_def)
  have p2: "(2::rat) powi (k - 1 + 1) = 2 ^ nat k" using k1 by (simp add: power_int_def)
  show ?thesis using lo hi by (simp only: e p1 p2)
next
  case False
  then have x1: "x < 1" by simp
  define n where "n = \<lceil>1 / x\<rceil> - 1"
  have inv: "1 < 1 / x" using assms x1 by simp
  have npos: "0 < n" using inv by (simp add: n_def)
  define k where "k = bitlen n"
  have k1: "1 \<le> k" using npos by (simp add: k_def bitlen_alt_def)
  have b: "2 ^ nat (k - 1) \<le> n" "n < 2 ^ nat k"
    using bitlen_bounds [OF npos] by (simp_all add: k_def)
  have n_lt: "of_int n < 1 / x" by (simp add: n_def | linarith)+
  have n_ge: "1 / x \<le> of_int n + 1" by (simp add: n_def | linarith)+
  have up: "1 / x \<le> (2::rat) ^ nat k"
  proof -
    have "n + 1 \<le> 2 ^ nat k" using b(2) by simp
    then have "(of_int (n + 1) :: rat) \<le> of_int (2 ^ nat k)" by (simp only: of_int_le_iff)
    moreover have "1 / x \<le> of_int (n + 1)" using n_ge by simp
    ultimately have "1 / x \<le> (of_int (2 ^ nat k) :: rat)" by (rule order_trans [rotated])
    then show ?thesis by simp
  qed
  have dn: "(2::rat) ^ nat (k - 1) < 1 / x"
  proof -
    have "(of_int (2 ^ nat (k - 1)) :: rat) \<le> of_int n" using b(1) by (simp only: of_int_le_iff)
    also have "\<dots> < 1 / x" by (rule n_lt)
    finally show ?thesis by simp
  qed
  have e: "ilog2 x = - k" using False by (simp add: ilog2_def k_def n_def)
  have p1: "(2::rat) powi (- k) = 1 / 2 ^ nat k"
    using k1 by (simp add: power_int_def field_simps)
  have p2: "(2::rat) powi (- k + 1) = 1 / 2 ^ nat (k - 1)"
    using k1 by (auto simp add: power_int_def field_simps nat_diff_distrib)
  have lo: "1 / 2 ^ nat k \<le> x"
    using up assms by (simp add: field_simps)
  have hi: "x < 1 / 2 ^ nat (k - 1)"
    using dn assms by (simp add: field_simps)
  show ?thesis using lo hi by (simp only: e p1 p2)
qed

lemma ilog2_eqI:
  assumes "2 powi e \<le> x" "x < 2 powi (e + 1)"
  shows "ilog2 x = e"
proof -
  have "0 < (2::rat) powi e" by simp
  then have pos: "0 < x" using assms(1) by linarith
  note b = ilog2_bounds [OF pos]
  have "\<not> ilog2 x < e"
  proof
    assume "ilog2 x < e"
    then have "ilog2 x + 1 \<le> e" by simp
    then have "(2::rat) powi (ilog2 x + 1) \<le> 2 powi e"
      by (intro power_int_increasing) simp_all
    then show False using b assms(1) by simp
  qed
  moreover have "\<not> e < ilog2 x"
  proof
    assume "e < ilog2 x"
    then have "e + 1 \<le> ilog2 x" by simp
    then have "(2::rat) powi (e + 1) \<le> 2 powi ilog2 x"
      by (intro power_int_increasing) simp_all
    then show False using b assms(2) by simp
  qed
  ultimately show ?thesis by simp
qed

lemma round_half_even_eqI:
  assumes "\<bar>x - of_int m\<bar> < 1 / 2"
  shows "round_half_even x = m"
proof -
  have lo: "of_int m - 1 / 2 < x" using assms by linarith
  have hi: "x < of_int m + 1 / 2" using assms by linarith
  have "\<lfloor>x\<rfloor> = m \<or> \<lfloor>x\<rfloor> = m - 1"
  proof (cases "of_int m \<le> x")
    case True
    then have "\<lfloor>x\<rfloor> = m" using hi by (intro floor_unique) simp_all
    then show ?thesis by simp
  next
    case False
    then have "\<lfloor>x\<rfloor> = m - 1" using lo by (intro floor_unique) simp_all
    then show ?thesis by simp
  qed
  then show ?thesis
  proof
    assume f: "\<lfloor>x\<rfloor> = m"
    have "x - of_int m < 1 / 2" using hi by simp
    then show ?thesis by (simp add: round_half_even_def f Let_def)
  next
    assume f: "\<lfloor>x\<rfloor> = m - 1"
    have "1 / 2 < x - of_int (m - 1)" using lo by simp
    then show ?thesis by (simp add: round_half_even_def f Let_def)
  qed
qed

lemma round_half_even_bounds:
  "of_int (round_half_even y) \<le> y + 1" "of_int \<lfloor>y\<rfloor> \<le> (of_int (round_half_even y) :: rat)"
proof -
  have f: "of_int \<lfloor>y\<rfloor> \<le> y" by simp
  have c: "round_half_even y = \<lfloor>y\<rfloor> \<or> round_half_even y = \<lfloor>y\<rfloor> + 1"
    by (auto simp: round_half_even_def Let_def)
  show "of_int (round_half_even y) \<le> y + 1"
  proof (rule disjE [OF c])
    assume "round_half_even y = \<lfloor>y\<rfloor>"
    then have "(of_int (round_half_even y) :: rat) = of_int \<lfloor>y\<rfloor>" by (simp only:)
    then show ?thesis using f by linarith
  next
    assume "round_half_even y = \<lfloor>y\<rfloor> + 1"
    then have "(of_int (round_half_even y) :: rat) = of_int \<lfloor>y\<rfloor> + 1" by (simp only: of_int_add of_int_1)
    then show ?thesis using f by linarith
  qed
  show "of_int \<lfloor>y\<rfloor> \<le> (of_int (round_half_even y) :: rat)"
  proof (rule disjE [OF c])
    assume "round_half_even y = \<lfloor>y\<rfloor>"
    then show ?thesis by (simp only: order_refl)
  next
    assume "round_half_even y = \<lfloor>y\<rfloor> + 1"
    then have "(of_int (round_half_even y) :: rat) = of_int \<lfloor>y\<rfloor> + 1" by (simp only: of_int_add of_int_1)
    then show ?thesis by linarith
  qed
qed

lemma fl_eqI:
  assumes "2 powi e \<le> \<bar>x\<bar>" "\<bar>x\<bar> < 2 powi (e + 1)" "- 1022 \<le> e"
    and "\<bar>\<bar>x\<bar> / 2 powi (e - 52) - of_int m\<bar> < 1 / 2"
    and "of_int m * 2 powi (e - 52) < (2::rat) ^ 1024"
  shows "fl x = Fin (sgn x * (of_int m * 2 powi (e - 52)))"
proof -
  have "0 < (2::rat) powi e" by simp
  then have "0 < \<bar>x\<bar>" using assms(1) by linarith
  then have "x \<noteq> 0" by simp
  moreover have "max (ilog2 \<bar>x\<bar>) (- 1022) = e"
    using ilog2_eqI [OF assms(1,2)] assms(3) by simp
  ultimately show ?thesis
    using assms(5) by (simp add: fl_def Let_def round_half_even_eqI [OF assms(4)])
qed

lemma fl_bound:
  assumes "2 * \<bar>x\<bar> + 1 < 2 ^ 1024"
  shows "\<exists>y. fl x = Fin y \<and> \<bar>y\<bar> \<le> 2 * \<bar>x\<bar> + 1"
proof (cases "x = 0")
  case True
  then show ?thesis by (simp add: fl_def)
next
  case False
  define a where "a = \<bar>x\<bar>"
  have apos: "0 < a" using False by (simp add: a_def)
  define e where "e = max (ilog2 a) (- 1022)"
  define ulp :: rat where "ulp = 2 powi (e - 52)"
  define r where "r = of_int (round_half_even (a / ulp)) * ulp"
  have upos: "0 < ulp" by (simp add: ulp_def)
  have ulp_le: "ulp \<le> a + 1"
  proof (cases "- 1022 \<le> ilog2 a")
    case True
    then have "e = ilog2 a" by (simp add: e_def)
    then have "ulp \<le> 2 powi (ilog2 a)"
      unfolding ulp_def by (intro power_int_increasing) simp_all
    then show ?thesis using ilog2_bounds [OF apos] by linarith
  next
    case False
    then have "e = - 1022" by (simp add: e_def)
    then have "ulp \<le> 2 powi 0"
      unfolding ulp_def by (intro power_int_increasing) simp_all
    then show ?thesis using apos by simp
  qed
  have "r \<le> (a / ulp + 1) * ulp"
    unfolding r_def using round_half_even_bounds(1) [of "a / ulp"] upos
    by (intro mult_right_mono) simp_all
  also have "\<dots> = a + ulp" using upos by (simp add: field_simps)
  finally have r_le: "r \<le> 2 * a + 1" using ulp_le by linarith
  have "0 \<le> a / ulp" using apos upos by simp
  then have "(0::int) \<le> \<lfloor>a / ulp\<rfloor>" by simp
  then have "(0::rat) \<le> of_int \<lfloor>a / ulp\<rfloor>" by simp
  then have "(0::rat) \<le> of_int (round_half_even (a / ulp))"
    using round_half_even_bounds(2) [of "a / ulp"] by linarith
  then have r_ge: "0 \<le> r" unfolding r_def using upos by simp
  have small: "\<not> 2 ^ 1024 \<le> r" using r_le assms by (simp add: a_def)
  have "fl x = Fin (sgn x * r)"
    using False small by (simp add: fl_def Let_def r_def ulp_def e_def a_def)
  moreover have "\<bar>sgn x * r\<bar> \<le> 2 * \<bar>x\<bar> + 1"
    using r_ge r_le False by (simp add: abs_mult a_def)
  ultimately show ?thesis by simp
qed

lemma fl_overflow:
  assumes "2 ^ 1024 \<le> x"
  shows "fl x = PosInf"
proof -
  have "(0::rat) < 2 ^ 1024" by simp
  then have xpos: "0 < x" using assms by linarith
  define e where "e = ilog2 x"
  note b = ilog2_bounds [OF xpos, folded e_def]
  have e_ge: "1024 \<le> e"
  proof (rule ccontr)
    assume "\<not> 1024 \<le> e"
    then have "e + 1 \<le> 1024" by simp
    then have "(2::rat) powi (e + 1) \<le> 2 powi 1024" by (intro power_int_increasing) simp_all
    then show False using b assms by simp
  qed
  define ulp :: rat where "ulp = 2 powi (e - 52)"
  have upos: "0 < ulp" by (simp add: ulp_def)
  have split: "(2::rat) powi e = 2 ^ 52 * ulp"
  proof -
    have "(2::rat) powi e = 2 powi (52 + (e - 52))" by simp
    also have "\<dots> = 2 powi 52 * 2 powi (e - 52)" by (subst power_int_add) simp_all
    finally show ?thesis by (simp add: ulp_def)
  qed
  have "2 ^ 52 * ulp \<le> x" using b split by simp
  then have "(2::rat) ^ 52 \<le> x / ulp" using upos by (simp add: field_simps)
  then have "(of_int (2 ^ 52) :: rat) \<le> x / ulp" by simp
  then have "(2::int) ^ 52 \<le> \<lfloor>x / ulp\<rfloor>" by (simp only: le_floor_iff)
  moreover have "\<lfloor>x / ulp\<rfloor> \<le> round_half_even (x / ulp)"
    using round_half_even_bounds(2) [of "x / ulp"] by (simp only: of_int_le_iff)
  ultimately have "(2::int) ^ 52 \<le> round_half_even (x / ulp)" by (rule order_trans)
  then have "(of_int (2 ^ 52) :: rat) \<le> of_int (round_half_even (x / ulp))"
    by (simp only: of_int_le_iff)
  then have "(2::rat) ^ 52 \<le> of_int (round_half_even (x / ulp))" by simp
  then have "2 ^ 52 * ulp \<le> of_int (round_half_even (x / ulp)) * ulp"
    using upos by (intro mult_right_mono) simp_all
  then have "2 powi e \<le> of_int (round_half_even (x / ulp)) * ulp" by (simp only: split)
  moreover have "(2::rat) ^ 1024 \<le> 2 powi e"
  proof -
    have "(2::rat) powi 1024 \<le> 2 powi e" using e_ge by (intro power_int_increasing) simp_all
    then show ?thesis by simp
  qed
  ultimately have big: "2 ^ 1024 \<le> of_int (round_half_even (x / ulp)) * ulp" by linarith
  have "max (ilog2 \<bar>x\<bar>) (- 1022) = e" using xpos e_ge by (simp add: e_def)
  then show ?thesis
    using xpos big by (simp add: fl_def Let_def ulp_def)
qed

lemma fl_not_NaN: "fl x \<noteq> NaN"
  by (simp add: fl_def Let_def)

lemma fl_of_int:
  assumes "\<bar>n\<bar> < 2 ^ 53"
  shows "fl (of_int n) = Fin (of_int n)"
proof (cases "n = 0")
  case True
  then show ?thesis by (simp add: fl_def)
next
  case False
  define a :: rat where "a = \<bar>of_int n\<bar>"
  have a1: "1 \<le> a" using False by (simp add: a_def)
  then have apos: "0 < a" by simp
  define e where "e = ilog2 a"
  note b = ilog2_bounds [OF apos, folded e_def]
  have e0: "0 \<le> e"
  proof (rule ccontr)
    assume "\<not> 0 \<le> e"
    then have "e + 1 \<le> 0" by simp
    then have "(2::rat) powi (e + 1) \<le> 2 powi 0" by (intro power_int_increasing) simp_all
    then show False using b a1 by simp
  qed
  have e52: "e \<le> 52"
  proof (rule ccontr)
    assume "\<not> e \<le> 52"
    then have "53 \<le> e" by simp
    then have "(2::rat) powi 53 \<le> 2 powi e" by (intro power_int_increasing) simp_all
    moreover have "a < 2 ^ 53"
    proof -
      have "(of_int \<bar>n\<bar> :: rat) < of_int (2 ^ 53)" using assms by (simp only: of_int_less_iff)
      then show ?thesis by (simp add: a_def)
    qed
    ultimately show False using b by simp
  qed
  define k where "k = nat (52 - e)"
  have ulp: "(2::rat) powi (e - 52) = 1 / 2 ^ k"
    using e52 by (simp add: power_int_def k_def field_simps)
  have q: "a / 2 powi (e - 52) = of_int (\<bar>n\<bar> * 2 ^ k)"
    by (simp add: ulp a_def)
  have r: "of_int (\<bar>n\<bar> * 2 ^ k) * 2 powi (e - 52) = a"
    by (simp add: ulp a_def)
  have small: "a < 2 ^ 1024"
  proof -
    have "(of_int \<bar>n\<bar> :: rat) < of_int (2 ^ 53)" using assms by (simp only: of_int_less_iff)
    then have "a < 2 ^ 53" by (simp add: a_def)
    moreover have "(2::rat) ^ 53 \<le> 2 ^ 1024" by (intro power_increasing) simp_all
    ultimately show ?thesis by linarith
  qed
  have "fl (of_int n) = Fin (sgn (of_int n) * (of_int (\<bar>n\<bar> * 2 ^ k) * 2 powi (e - 52)))"
  proof (rule fl_eqI)
    show "2 powi e \<le> \<bar>(of_int n :: rat)\<bar>" using b by (simp add: a_def)
    show "\<bar>(of_int n :: rat)\<bar> < 2 powi (e + 1)" using b by (simp add: a_def)
    show "- 1022 \<le> e" using e0 by simp
    show "\<bar>\<bar>(of_int n :: rat)\<bar> / 2 powi (e - 52) - of_int (\<bar>n\<bar> * 2 ^ k)\<bar> < 1 / 2"
      using q by (simp add: a_def)
    show "of_int (\<bar>n\<bar> * 2 ^ k) * 2 powi (e - 52) < (2::rat) ^ 1024"
      using r small by simp
  qed
  also have "\<dots> = Fin (sgn (of_int n) * a)" by (simp only: r)
  also have "\<dots> = Fin (of_int n)" by (simp add: a_def sgn_mult_abs)
  finally show ?thesis .
qed

lemma fl_numeral:
  "(numeral k :: int) < 2 ^ 53 \<Longrightarrow> fl (numeral k) = Fin (numeral k)"
  using fl_of_int [of "numeral k"] by simp

lemma fl_one: "fl 1 = Fin 1"
  using fl_of_int [of 1] by simp

lemma fl_300: "fl 300 = Fin 300"
  using fl_eqI [of 8 300 "300 * 2 ^ 44"] by (simp add: power_int_minus)

lemma fl_7_10: "fl (7 / 10) = Fin (6305039478318694 / 2 ^ 53)"
  using fl_eqI [of "-1" "7 / 10" 6305039478318694] by (simp add: power_int_minus)

lemma fl_8_10: "fl (8 / 10) = Fin (7205759403792794 / 2 ^ 53)"
  using fl_eqI [of "-1" "8 / 10" 7205759403792794] by (simp add: power_int_minus)

lemma fl_12_10: "fl (12 / 10) = Fin (5404319552844595 / 2 ^ 52)"
  using fl_eqI [of "0" "12 / 10" 5404319552844595] by (simp add: power_int_minus)

lemma fl_half: "fl (1 / 2) = Fin (1 / 2)"
  using fl_eqI [of "-1" "1 / 2" "2 ^ 52"] by (simp add: power_int_minus)

lemma fl_3_2: "fl (3 / 2) = Fin (3 / 2)"
  using fl_eqI [of 0 "3 / 2" "3 * 2 ^ 51"] by (simp add: power_int_minus)

lemma fl_4_5: "fl (4 / 5) = Fin (7205759403792794 / 2 ^ 53)"
  using fl_eqI [of "-1" "4 / 5" 7205759403792794] by (simp add: power_int_minus)

lemma fl_6_5: "fl (6 / 5) = Fin (5404319552844595 / 2 ^ 52)"
  using fl_eqI [of 0 "6 / 5" 5404319552844595] by (simp add: power_int_minus)

lemmas fl_literals = fl_one fl_numeral fl_half fl_3_2 fl_4_5 fl_6_5 fl_7_10

section \<open>Evaluation of the examples\<close>

lemmas js_defs = js_or_def js_mul_def num_mul_def lit_def Math_ceil_def Math_max_def get_property_def
  object_prototype_properties_def typeMultipliers_def modelMultipliers_def

lemmas queue_defs = enqueue_def ensureConnection_def connect_def handleConnectionError_def
  queueDefinitions_def maxReconnectAttempts_def reconnectDelay_def new_QueueService_def
  str_or_def queue_not_defined_def

lemmas submit_defs = createGenerationRequest_def existing_content_item_def
  requested_template_def create_content_item_def create_and_queue_def
  request_contentType_def request_isNewContent_def str_truthy_def str_default_def
  less_than_estimate_def

lemmas example_defs = world_0_def request_300_def account_1000_def broker_up_def
  broker_down_def

lemma estimate_300:
  "estimateGenerationCost \<lparr>wordCount = Number (Fin 300), model = None, seoOptimize = Undefined\<rparr> ''blog'' = Fin 300"
  by (simp add: estimateGenerationCost_def js_defs fl_one fl_numeral)

lemma estimate_1500:
  "estimateGenerationCost \<lparr>wordCount = Number (Fin 1500), model = None, seoOptimize = Undefined\<rparr> ''blog'' = Fin 1500"
  by (simp add: estimateGenerationCost_def js_defs fl_one fl_numeral)

lemma submit_up:
  "fst (createGenerationRequest broker_up ''gen-1'' ''item-1'' request_300 world_0)
     = Json 202 (Queued ''Content generation request queued successfully'' ''gen-1'' ''item-1'' 300 ''queued'')"
  by (simp add: submit_defs example_defs estimate_300 queue_defs js_defs Let_def)

lemma submit_down:
  "fst (createGenerationRequest broker_down ''gen-1'' ''item-1'' request_300 world_0)
     = Next AmqpConnectError \<and>
   map_option creditsRemaining (creditAccounts (db (snd (createGenerationRequest broker_down ''gen-1'' ''item-1'' request_300 world_0))) ''user-1'') = Some 700 \<and>
   map_option status (contentGenerations (db (snd (createGenerationRequest broker_down ''gen-1'' ''item-1'' request_300 world_0))) ''gen-1'') = Some ''queued''"
  by (simp add: submit_defs example_defs estimate_300 queue_defs js_defs Let_def)

lemma submit_down_generation:
  "contentGenerations (db (snd (createGenerationRequest broker_down ''gen-1'' ''item-1'' request_300 world_0))) ''gen-1''
     = Some \<lparr>gen_userId = ''user-1'', gen_contentItemId = ''item-1'',
               gen_promptData = req_promptData request_300, gen_aiProvider = ''default'',
               status = ''queued'', estimatedCredits = 300, gen_error = None\<rparr>"
  by (simp add: submit_defs example_defs estimate_300 queue_defs js_defs Let_def)

lemma world_1_eq:
  "world_1 =
     \<lparr>db = \<lparr>creditAccounts = [''user-1'' \<mapsto> account_1000\<lparr>creditsRemaining := 700\<rparr>],
            contentGenerations = [''gen-1'' \<mapsto>
              \<lparr>gen_userId = ''user-1'', gen_contentItemId = ''item-1'',
               gen_promptData = req_promptData request_300, gen_aiProvider = ''default'',
               status = ''queued'', estimatedCredits = 300, gen_error = None\<rparr>],
            contentItems = [''item-1'' \<mapsto>
              \<lparr>item_userId = ''user-1'', item_templateId = None,
               item_title = ''Untitled Content'', item_contentType = ''blog'',
               item_status = ''draft'', item_generationId = Some ''gen-1''\<rparr>],
            templates = Map.empty\<rparr>,
      service = \<lparr>connected = True, connecting = False, channel = True,
                 queues = [(''content-generation'', Boolean True),
                           (''content-publishing'', Boolean True),
                           (''notification'', Boolean True)],
                 reconnectAttempts = 0, reconnectTimeout = None\<rparr>,
      mq = \<lparr>published = [(''content-generation'', first_delivery)], dead_letters = []\<rparr>,
      timers = []\<rparr>"
  by (simp add: world_1_def submit_defs example_defs estimate_300 queue_defs js_defs Let_def
      first_delivery_def job_1_def)

lemma world_1_facts:
  "findGeneration ''gen-1'' ''user-1'' (db world_1) = Some gen_1"
  "creditAccounts (db world_1) ''user-1'' = Some (account_1000\<lparr>creditsRemaining := 700\<rparr>)"
  "channel (service world_1)"
  "timers world_1 = []"
  by (simp_all add: world_1_eq findGeneration_def gen_1_def)





section \<open>The steps of a submission\<close>

text \<open>
  A submission ends in one of four ways: a response other than 202 with nothing
  written; the path that is not modelled; an error thrown before the generation record
  exists, with the ledger and the generation table untouched; or the generation record
  created as \<open>queued\<close> and the estimate subtracted from the account, followed by the
  result of \<open>enqueue\<close>.
\<close>

lemma existing_content_item_rejects:
  "existing_content_item req d = Inl r \<Longrightarrow> \<exists>b. r = Json 404 b"
  by (auto simp: existing_content_item_def split: if_splits option.splits)

lemma requested_template_rejects:
  "requested_template req d = Inl r \<Longrightarrow> \<exists>b. r = Json 404 b"
  by (auto simp: requested_template_def split: if_splits option.splits)

lemma create_content_item_ledger:
  "create_content_item g u2 req t c d = Inr (c', d1) \<Longrightarrow>
   creditAccounts d1 = creditAccounts d \<and> contentGenerations d1 = contentGenerations d"
  by (auto simp: create_content_item_def split: if_splits)

lemma create_and_queue_cases:
  fixes env g req a cost c w
  defines "res \<equiv> create_and_queue env g req a cost c w"
  obtains
    (threw) e where "res = (Next e, w)"
  | (reserved) item d3 r s b gen where
      "contentGenerations (db w) g = None"
      "enqueue env ''content-generation''
         \<lparr>msg_id = None, msg_generationId = Some g, msg_userId = req_userId req,
          msg_contentItemId = item\<rparr> (service w, mq w) = (r, s, b)"
      "creditAccounts d3 = (creditAccounts (db w))(req_userId req \<mapsto>
          a\<lparr>creditsRemaining := creditsRemaining a - cost\<rparr>)"
      "contentGenerations d3 = (contentGenerations (db w))(g \<mapsto> gen)"
      "status gen = ''queued''" "estimatedCredits gen = cost" "gen_userId gen = req_userId req"
      "res = ((case r of Inl e \<Rightarrow> Next e
                | Inr ok \<Rightarrow> Json 202 (Queued ''Content generation request queued successfully''
                                      g item cost ''queued'')),
              w\<lparr>db := d3, service := s, mq := b\<rparr>)"
proof (cases c)
  case None
  then show ?thesis using threw by (simp add: res_def create_and_queue_def)
next
  case (Some item)
  show ?thesis
  proof (cases "contentGenerations (db w) g")
    case (Some x)
    then show ?thesis using threw \<open>c = Some item\<close> by (simp add: res_def create_and_queue_def)
  next
    case None
    obtain r s b where enq: "enqueue env ''content-generation''
         \<lparr>msg_id = None, msg_generationId = Some g, msg_userId = req_userId req,
          msg_contentItemId = item\<rparr> (service w, mq w) = (r, s, b)"
      by (metis prod_cases3)
    define gen where "gen = \<lparr>gen_userId = req_userId req, gen_contentItemId = item,
                        gen_promptData = req_promptData req,
                        gen_aiProvider = str_default (req_aiProvider req) ''default'',
                        status = ''queued'', estimatedCredits = cost,
                        gen_error = None\<rparr>"
    define d3 where "d3 = (db w)\<lparr>contentGenerations := (contentGenerations (db w))(g \<mapsto> gen),
                       creditAccounts := (creditAccounts (db w))(req_userId req \<mapsto>
                         a\<lparr>creditsRemaining := creditsRemaining a - cost\<rparr>)\<rparr>"
    have res: "res = ((case r of Inl e \<Rightarrow> Next e
                | Inr ok \<Rightarrow> Json 202 (Queued ''Content generation request queued successfully''
                                      g item cost ''queued'')),
              w\<lparr>db := d3, service := s, mq := b\<rparr>)"
      by (cases r) (simp_all add: res_def create_and_queue_def Let_def \<open>c = Some item\<close> None enq
            d3_def gen_def)
    have f1: "creditAccounts d3 = (creditAccounts (db w))(req_userId req \<mapsto>
          a\<lparr>creditsRemaining := creditsRemaining a - cost\<rparr>)"
      by (simp add: d3_def)
    have f2: "contentGenerations d3 = (contentGenerations (db w))(g \<mapsto> gen)"
      by (simp add: d3_def)
    have f3: "status gen = ''queued''" "estimatedCredits gen = cost" "gen_userId gen = req_userId req"
      by (simp_all add: gen_def)
    show ?thesis
      by (rule reserved [OF None enq f1 f2 f3 res])
  qed
qed

lemma createGenerationRequest_cases:
  fixes env uuid1 uuid2 req w
  defines "res \<equiv> createGenerationRequest env uuid1 uuid2 req w"
  obtains
    (rejected) code b where "res = (Json code b, w)" "code \<noteq> 202"
  | (not_modelled) "res = (NotModelled, w)"
      "\<forall>cost. estimateGenerationCost (req_promptData req) (request_contentType req) \<noteq> Fin cost"
  | (threw) e d1 where "res = (Next e, w\<lparr>db := d1\<rparr>)"
      "creditAccounts d1 = creditAccounts (db w)"
      "contentGenerations d1 = contentGenerations (db w)"
  | (reserved) a cost item d3 r s b gen where
      "creditAccounts (db w) (req_userId req) = Some a"
      "estimateGenerationCost (req_promptData req) (request_contentType req) = Fin cost"
      "\<not> creditsRemaining a < cost"
      "contentGenerations (db w) uuid1 = None"
      "enqueue env ''content-generation''
         \<lparr>msg_id = None, msg_generationId = Some uuid1, msg_userId = req_userId req,
          msg_contentItemId = item\<rparr> (service w, mq w) = (r, s, b)"
      "creditAccounts d3 = (creditAccounts (db w))(req_userId req \<mapsto>
          a\<lparr>creditsRemaining := creditsRemaining a - cost\<rparr>)"
      "contentGenerations d3 = (contentGenerations (db w))(uuid1 \<mapsto> gen)"
      "status gen = ''queued''" "estimatedCredits gen = cost" "gen_userId gen = req_userId req"
      "res = ((case r of Inl e \<Rightarrow> Next e
                | Inr ok \<Rightarrow> Json 202 (Queued ''Content generation request queued successfully''
                                      uuid1 item cost ''queued'')),
              w\<lparr>db := d3, service := s, mq := b\<rparr>)"
proof (cases "validationErrors req = []")
  case False
  then show ?thesis using rejected [of 400] by (simp add: res_def createGenerationRequest_def)
next
  case valid: True
  show ?thesis
  proof (cases "existing_content_item req (db w)")
    case (Inl r)
    then show ?thesis
      using rejected [of 404] existing_content_item_rejects [OF Inl] valid
      by (auto simp: res_def createGenerationRequest_def)
  next
    case item: (Inr contentItem)
    show ?thesis
    proof (cases "requested_template req (db w)")
      case (Inl r)
      then show ?thesis
        using rejected [of 404] requested_template_rejects [OF Inl] valid item
        by (auto simp: res_def createGenerationRequest_def)
    next
      case tmpl: (Inr template)
      show ?thesis
      proof (cases "creditAccounts (db w) (req_userId req)")
        case None
        then show ?thesis
          using rejected [of 404] valid item tmpl
          by (simp add: res_def createGenerationRequest_def)
      next
        case acct: (Some a)
        show ?thesis
        proof (cases "estimateGenerationCost (req_promptData req) (request_contentType req)")
          case NaN
          then show ?thesis
            using not_modelled valid item tmpl acct
            by (simp add: res_def createGenerationRequest_def less_than_estimate_def)
        next
          case PosInf
          then show ?thesis
            using rejected [of 402] valid item tmpl acct
            by (simp add: res_def createGenerationRequest_def less_than_estimate_def)
        next
          case NegInf
          then show ?thesis
            using not_modelled valid item tmpl acct
            by (simp add: res_def createGenerationRequest_def less_than_estimate_def)
        next
          case est: (Fin cost)
          show ?thesis
          proof (cases "creditsRemaining a < cost")
            case True
            then show ?thesis
              using rejected [of 402] valid item tmpl acct est
              by (simp add: res_def createGenerationRequest_def less_than_estimate_def)
          next
            case enough: False
            show ?thesis
            proof (cases "create_content_item uuid1 uuid2 req template contentItem (db w)")
              case (Inl e)
              have "w\<lparr>db := db w\<rparr> = w" by simp
              then show ?thesis
                using threw [of e "db w"] valid item tmpl acct est enough Inl
                by (simp add: res_def createGenerationRequest_def less_than_estimate_def)
            next
              case (Inr p)
              obtain c' d1 where p: "p = (c', d1)" by (cases p)
              have led: "creditAccounts d1 = creditAccounts (db w)"
                        "contentGenerations d1 = contentGenerations (db w)"
                using create_content_item_ledger [of uuid1 uuid2 req template contentItem "db w" c' d1]
                  Inr p by simp_all
              have res: "res = create_and_queue env uuid1 req a cost c' (w\<lparr>db := d1\<rparr>)"
                using valid item tmpl acct est enough Inr p
                by (simp add: res_def createGenerationRequest_def less_than_estimate_def)
              note T = threw and R = reserved
              show ?thesis
              proof (cases rule: create_and_queue_cases [of env uuid1 req a cost c' "w\<lparr>db := d1\<rparr>"])
                case (threw e)
                then show ?thesis using led res T by simp
              next
                case (reserved item d3 r s b gen)
                show ?thesis
                  using R [OF acct est enough, of item r s b d3 gen] reserved led res
                  by simp
              qed
            qed
          qed
        qed
      qed
    qed
  qed
qed


section \<open>Cancellation\<close>

lemma cancelGeneration_queued:
  assumes "findGeneration gid userId (db w) = Some g" "status g = ''queued''"
  shows "fst (cancelGeneration env gid userId w) =
           Json 200 (Cancelled ''Generation request cancelled successfully'' gid (estimatedCredits g))"
    and "contentGenerations (db (snd (cancelGeneration env gid userId w))) =
           (contentGenerations (db w))(gid \<mapsto> g\<lparr>status := ''failed'', gen_error := Some ''Cancelled by user''\<rparr>)"
    and "creditAccounts (db (snd (cancelGeneration env gid userId w))) =
           (case creditAccounts (db w) userId of
              None \<Rightarrow> creditAccounts (db w)
            | Some a \<Rightarrow> (creditAccounts (db w))(userId \<mapsto>
                         a\<lparr>creditsRemaining := creditsRemaining a + estimatedCredits g\<rparr>))"
  using assms
  by (simp_all add: cancelGeneration_def Let_def split: prod.splits option.splits)

lemma cancelGeneration_not_queued:
  assumes "findGeneration gid userId (db w) = Some g" "status g \<noteq> ''queued''"
  shows "cancelGeneration env gid userId w =
           (Json 400 (ErrorBody ''Cannot cancel generation that is already processing or completed''), w)"
  using assms by (simp add: cancelGeneration_def)



section \<open>Deliveries that fail\<close>













section \<open>The queues object\<close>

lemma map_of_setupQueues:
  "map_of (setupQueues names qs) k = (if k \<in> set names then Some (Boolean True) else map_of qs k)"
  by (induction names arbitrary: qs) (auto simp: update_conv')

lemma keys_setupQueues:
  "fst ` set (setupQueues names qs) = set names \<union> fst ` set qs"
proof -
  have "dom (map_of (setupQueues names qs)) = set names \<union> dom (map_of qs)"
    by (auto simp: map_of_setupQueues dom_def)
  then show ?thesis by (simp add: dom_map_of_conv_image_fst)
qed

lemma get_property_undeclared:
  assumes "declared_only s" "queue \<notin> set queueDefinitions" "\<not> inherited_key queue"
  shows "get_property (queues s) queue = Undefined"
proof -
  have "map_of (queues s) queue = None"
    using assms(1,2) unfolding declared_only_def map_of_eq_None_iff by blast
  then show ?thesis using assms(3) by (simp add: get_property_def inherited_key_def)
qed

lemma ensureConnection_declared:
  "declared_only s \<Longrightarrow> declared_only (snd (ensureConnection env s))"
proof -
  assume "declared_only s"
  then have "fst ` set (setupQueues queueDefinitions (queues s)) \<subseteq> set queueDefinitions"
    unfolding declared_only_def keys_setupQueues by blast
  then have "declared_only (s\<lparr>channel := True, queues := setupQueues queueDefinitions (queues s),
                     connected := True, connecting := False, reconnectAttempts := 0\<rparr>)"
    by (simp add: declared_only_def)
  moreover have "declared_only (handleConnectionError (s\<lparr>connecting := False\<rparr>))"
    using \<open>declared_only s\<close> by (simp add: declared_only_def handleConnectionError_def Let_def)
  ultimately show ?thesis
    using \<open>declared_only s\<close> by (simp add: ensureConnection_def connect_def)
qed

lemma ensureConnection_error:
  "fst (ensureConnection env s) =
     (if \<not> connected s \<and> \<not> connecting s \<and> \<not> connect_ok env then Some AmqpConnectError else None)"
  by (simp add: ensureConnection_def connect_def)

section \<open>The ledger invariant, operation by operation\<close>







section \<open>The estimate and the multipliers of the specification\<close>

text \<open>
  The look-ups of the estimator agree with the multipliers of the specification when the
  key is not the name of an inherited property; products of doubles are doubles again,
  not NaN when the factors are not, and finite while the magnitudes stay below the
  overflow threshold.
\<close>

lemma type_multiplier:
  "\<not> inherited_key t \<Longrightarrow>
   js_or (get_property typeMultipliers t) (lit 1) = lit (spec_type_multiplier t)"
  by (simp add: inherited_key_def get_property_def typeMultipliers_def js_or_def lit_def
      fl_literals spec_type_multiplier_def)

lemma model_multiplier:
  "(case m of None \<Rightarrow> True | Some k \<Rightarrow> \<not> inherited_key k) \<Longrightarrow>
   js_or (case m of None \<Rightarrow> Undefined | Some k \<Rightarrow> get_property modelMultipliers k)
         (get_property modelMultipliers ''default'')
   = lit (spec_model_multiplier m)"
  by (cases m) (simp_all add: inherited_key_def get_property_def modelMultipliers_def js_or_def
      lit_def fl_literals spec_model_multiplier_def)

lemma word_count:
  "v \<noteq> Object \<Longrightarrow> ToNumber (js_or v (lit 1000)) = spec_word_count v"
  by (cases v rule: truthy.cases)
     (simp_all add: js_or_def lit_def spec_word_count_def split: bool.splits)

lemma ToNumber_lit: "ToNumber (lit q) = fl q"
  by (simp add: lit_def)

lemma spec_word_count_not_NaN: "spec_word_count v \<noteq> NaN"
  by (cases v rule: truthy.cases) (simp_all add: spec_word_count_def fl_literals split: bool.splits)

lemma spec_word_count_bounded:
  assumes "magnitude_le v (2 ^ 1000)"
  shows "\<exists>x. spec_word_count v = Fin x \<and> \<bar>x\<bar> \<le> 2 ^ 1000"
proof -
  have "(1000::rat) \<le> 2 ^ 10" by simp
  also have "(2::rat) ^ 10 \<le> 2 ^ 1000" by (intro power_increasing) simp_all
  finally have k: "(1000::rat) \<le> 2 ^ 1000" .
  have one: "(1::rat) \<le> 2 ^ 1000" by (intro one_le_power) simp
  show ?thesis
    using assms k one
    by (cases v rule: truthy.cases)
       (simp_all add: spec_word_count_def magnitude_le_def fl_literals split: bool.splits)
qed

lemma spec_multipliers:
  "case fl (spec_type_multiplier t) of Fin q \<Rightarrow> 0 < q \<and> q \<le> 2 | _ \<Rightarrow> False"
  "case fl (spec_model_multiplier m) of Fin q \<Rightarrow> 0 < q \<and> q \<le> 2 | _ \<Rightarrow> False"
  "case fl (spec_seo_multiplier v) of Fin q \<Rightarrow> 0 < q \<and> q \<le> 2 | _ \<Rightarrow> False"
  by (simp_all add: spec_type_multiplier_def spec_model_multiplier_def spec_seo_multiplier_def
      fl_literals)

lemma num_mul_not_NaN:
  "a \<noteq> NaN \<Longrightarrow> 0 < q \<Longrightarrow> num_mul a (Fin q) \<noteq> NaN"
  by (cases a) (simp_all add: num_mul_def fl_not_NaN)

lemma num_mul_bounded:
  assumes "\<bar>x\<bar> \<le> B" "0 < q" "q \<le> 2" "4 * B + 1 < 2 ^ 1024"
  shows "\<exists>y. num_mul (Fin x) (Fin q) = Fin y \<and> \<bar>y\<bar> \<le> 4 * B + 1"
proof -
  have "\<bar>x * q\<bar> = \<bar>x\<bar> * q" using assms(2) by (simp add: abs_mult)
  also have "\<dots> \<le> B * 2"
    using assms(1,2,3) by (intro mult_mono) simp_all
  finally have xq: "\<bar>x * q\<bar> \<le> 2 * B" by simp
  then have "2 * \<bar>x * q\<bar> + 1 < 2 ^ 1024" using assms(4) by linarith
  from fl_bound [OF this] obtain y where "fl (x * q) = Fin y" "\<bar>y\<bar> \<le> 2 * \<bar>x * q\<bar> + 1"
    by auto
  then show ?thesis using xq by (auto simp: num_mul_def)
qed

lemma spec_cost_estimate:
  "Math_max (Math_ceil (Number p)) 100 =
     (case p of NaN \<Rightarrow> NaN | PosInf \<Rightarrow> PosInf | NegInf \<Rightarrow> Fin 100 | Fin q \<Rightarrow> Fin (max \<lceil>q\<rceil> 100))"
  by (cases p) (simp_all add: Math_max_def Math_ceil_def)

lemma product_1260:
  "num_mul (num_mul (num_mul (Fin 1000) (fl (7 / 10))) (fl (3 / 2))) (fl (6 / 5)) = Fin 1260"
proof -
  have a: "fl (1000 * (6305039478318694 / 2 ^ 53)) = Fin 700"
    using fl_eqI [of 9 "1000 * (6305039478318694 / 2 ^ 53)" "700 * 2 ^ 43"]
    by (simp add: power_int_minus)
  have b: "fl (700 * (3 / 2)) = Fin 1050"
    using fl_numeral [of "num.Bit0 (num.Bit1 (num.Bit0 (num.Bit1 (num.Bit1 (num.Bit0 (num.Bit0 (num.Bit0 (num.Bit0 (num.Bit0 num.One)))))))))"] by simp
  have c: "fl (1050 * (5404319552844595 / 2 ^ 52)) = Fin 1260"
    using fl_eqI [of 10 "1050 * (5404319552844595 / 2 ^ 52)" "1260 * 2 ^ 42"]
    by (simp add: power_int_minus)
  show ?thesis
    using a b c by (simp add: num_mul_def fl_literals)
qed

section \<open>The claims\<close>

subsection \<open>C1: a failed enqueue after the reservation\<close>

text \<open>
  Claim C1 says that a submission whose enqueue fails after the credits were reserved
  surfaces the error with the reservation refunded (or nothing created), so that the
  balance equals its value before the submission. The handler has no such roll-back.
  What holds (C1, amended): when \<open>createGenerationRequest\<close> passes an error to \<open>next\<close>
  after it has created the generation record \<open>uuid1\<close>, that error is the one \<open>enqueue\<close>
  threw, the record is still \<open>queued\<close>, its \<open>estimatedCredits\<close> is the estimate, and
  the account holds the balance before the submission minus that estimate.
\<close>

theorem failed_enqueue_keeps_reservation:
  assumes "createGenerationRequest env uuid1 uuid2 req w = (Next e, w')"
    and "contentGenerations (db w) uuid1 = None"
    and "contentGenerations (db w') uuid1 = Some g"
  shows "\<exists>a item.
           creditAccounts (db w) (req_userId req) = Some a \<and>
           fst (enqueue env ''content-generation''
                  \<lparr>msg_id = None, msg_generationId = Some uuid1, msg_userId = req_userId req,
                   msg_contentItemId = item\<rparr> (service w, mq w)) = Inl e \<and>
           status g = ''queued'' \<and>
           estimateGenerationCost (req_promptData req) (request_contentType req)
             = Fin (estimatedCredits g) \<and>
           map_option creditsRemaining (creditAccounts (db w') (req_userId req))
             = Some (creditsRemaining a - estimatedCredits g)"
proof (cases rule: createGenerationRequest_cases [of env uuid1 uuid2 req w])
  case (rejected code b)
  then show ?thesis using assms by simp
next
  case not_modelled
  then show ?thesis using assms by simp
next
  case (threw e' d1)
  then show ?thesis using assms by auto
next
  case (reserved a cost item d3 r s b gen)
  from reserved(11) assms(1) have r: "r = Inl e" and w': "w' = w\<lparr>db := d3, service := s, mq := b\<rparr>"
    by (cases r; simp)+
  from w' reserved(7) assms(3) have g: "g = gen" by simp
  have enq: "fst (enqueue env ''content-generation''
                  \<lparr>msg_id = None, msg_generationId = Some uuid1, msg_userId = req_userId req,
                   msg_contentItemId = item\<rparr> (service w, mq w)) = Inl e"
    using reserved(5) r by simp
  show ?thesis
    using reserved(1,2,6,8,9) enq w' g
    by (intro exI [of _ a] exI [of _ item]) simp
qed

text \<open>
  Witness for C1 (amended): the example request with the broker down. The generation
  id is fresh, \<open>enqueue\<close> throws the connection error, and the account is left with
  1000 - 300 credits.
\<close>

theorem failed_enqueue_keeps_reservation_witness:
  "contentGenerations (db world_0) ''gen-1'' = None \<and>
   fst (enqueue broker_down ''content-generation'' job_1 (service world_0, mq world_0))
     = Inl AmqpConnectError \<and>
   map_option creditsRemaining
     (creditAccounts (db (snd (createGenerationRequest broker_down ''gen-1'' ''item-1''
                                 request_300 world_0))) ''user-1'') = Some (1000 - 300)"
proof -
  define w' where "w' = snd (createGenerationRequest broker_down ''gen-1'' ''item-1'' request_300 world_0)"
  have run: "createGenerationRequest broker_down ''gen-1'' ''item-1'' request_300 world_0
               = (Next AmqpConnectError, w')"
    using submit_down by (simp add: w'_def prod_eq_iff)
  have fresh: "contentGenerations (db world_0) ''gen-1'' = None"
    by (simp add: world_0_def)
  have made: "contentGenerations (db w') ''gen-1''
     = Some \<lparr>gen_userId = ''user-1'', gen_contentItemId = ''item-1'',
               gen_promptData = req_promptData request_300, gen_aiProvider = ''default'',
               status = ''queued'', estimatedCredits = 300, gen_error = None\<rparr>"
    unfolding w'_def by (rule submit_down_generation)
  from failed_enqueue_keeps_reservation [OF run fresh made]
  obtain a where a: "creditAccounts (db world_0) (req_userId request_300) = Some a"
    and bal: "map_option creditsRemaining (creditAccounts (db w') (req_userId request_300))
                = Some (creditsRemaining a - 300)"
    by auto
  have "a = account_1000" using a by (simp add: world_0_def request_300_def)
  then have "map_option creditsRemaining (creditAccounts (db w') ''user-1'') = Some (1000 - 300)"
    using bal by (simp add: request_300_def account_1000_def)
  moreover have "fst (enqueue broker_down ''content-generation'' job_1 (service world_0, mq world_0))
     = Inl AmqpConnectError"
    by (simp add: queue_defs example_defs)
  ultimately show ?thesis using fresh by (simp add: w'_def)
qed

text \<open>
  Counterexample to C1 as stated: with the broker unreachable the submission of the
  example request ends with the connection error, the balance has gone from 1000 to
  700 and stays there, and the generation record exists with status \<open>queued\<close>.
\<close>

theorem failed_enqueue_not_rolled_back:
  "fst (createGenerationRequest broker_down ''gen-1'' ''item-1'' request_300 world_0)
     = Next AmqpConnectError \<and>
   map_option creditsRemaining (creditAccounts (db world_0) ''user-1'') = Some 1000 \<and>
   map_option creditsRemaining
     (creditAccounts (db (snd (createGenerationRequest broker_down ''gen-1'' ''item-1''
                                 request_300 world_0))) ''user-1'') = Some 700 \<and>
   map_option status
     (contentGenerations (db (snd (createGenerationRequest broker_down ''gen-1'' ''item-1''
                                     request_300 world_0))) ''gen-1'') = Some ''queued''"
  using submit_down by (simp add: world_0_def account_1000_def)

subsection \<open>C2: cancellation\<close>

text \<open>
  Claim C2 says that cancelling fails unless the job is \<open>queued\<close>, and that cancelling
  a queued job succeeds, moves it to a \<open>cancelled\<close> state and adds \<open>estimatedCredits\<close>
  back to the balance. The status column has no \<open>cancelled\<close> value. What holds (C2,
  amended): for a generation of the user, \<open>cancelGeneration\<close> answers 400 and changes
  nothing unless the status is \<open>queued\<close>; for a queued one it answers 200, sets the
  status to \<open>failed\<close> with the error text \<open>Cancelled by user\<close>, and adds the full
  \<open>estimatedCredits\<close> to the \<open>creditsRemaining\<close> of the user's account (when the
  account exists).
\<close>

theorem cancel_only_when_queued:
  assumes "findGeneration gid userId (db w) = Some g"
  shows "(status g \<noteq> ''queued'' \<longrightarrow>
            cancelGeneration env gid userId w =
              (Json 400 (ErrorBody ''Cannot cancel generation that is already processing or completed''), w)) \<and>
         (status g = ''queued'' \<longrightarrow>
            fst (cancelGeneration env gid userId w) =
              Json 200 (Cancelled ''Generation request cancelled successfully'' gid (estimatedCredits g)) \<and>
            contentGenerations (db (snd (cancelGeneration env gid userId w))) gid =
              Some (g\<lparr>status := ''failed'', gen_error := Some ''Cancelled by user''\<rparr>) \<and>
            map_option creditsRemaining (creditAccounts (db (snd (cancelGeneration env gid userId w))) userId) =
              map_option (\<lambda>a. creditsRemaining a + estimatedCredits g) (creditAccounts (db w) userId))"
  using cancelGeneration_not_queued [OF assms, of env] cancelGeneration_queued [OF assms, of env]
  by (auto split: option.splits)

text \<open>
  Witness for C2 (amended): the generation of the example is queued; cancelling it
  brings the balance from 700 to 700 + 300, and cancelling it a second time, now that it
  is no longer queued, answers 400.
\<close>

theorem cancel_only_when_queued_witness:
  "map_option status (contentGenerations (db world_1) ''gen-1'') = Some ''queued'' \<and>
   map_option creditsRemaining
     (creditAccounts (db (snd (cancelGeneration broker_up ''gen-1'' ''user-1'' world_1))) ''user-1'')
     = Some (700 + 300) \<and>
   fst (cancelGeneration broker_up ''gen-1'' ''user-1''
          (snd (cancelGeneration broker_up ''gen-1'' ''user-1'' world_1)))
     = Json 400 (ErrorBody ''Cannot cancel generation that is already processing or completed'')"
proof -
  define w2 where "w2 = snd (cancelGeneration broker_up ''gen-1'' ''user-1'' world_1)"
  have first: "contentGenerations (db w2) ''gen-1'' =
                 Some (gen_1\<lparr>status := ''failed'', gen_error := Some ''Cancelled by user''\<rparr>)"
    and bal: "map_option creditsRemaining (creditAccounts (db w2) ''user-1'') = Some (700 + 300)"
    using cancel_only_when_queued [OF world_1_facts(1), of broker_up] world_1_facts(2)
    by (simp_all add: w2_def gen_1_def)
  have found: "findGeneration ''gen-1'' ''user-1'' (db w2) =
                 Some (gen_1\<lparr>status := ''failed'', gen_error := Some ''Cancelled by user''\<rparr>)"
    using first by (simp add: findGeneration_def gen_1_def)
  have second: "fst (cancelGeneration broker_up ''gen-1'' ''user-1'' w2)
     = Json 400 (ErrorBody ''Cannot cancel generation that is already processing or completed'')"
    using cancel_only_when_queued [OF found, of broker_up] by (simp add: gen_1_def)
  have "map_option status (contentGenerations (db world_1) ''gen-1'') = Some ''queued''"
    by (simp add: world_1_eq)
  then show ?thesis using bal second by (simp add: w2_def)
qed

text \<open>
  Counterexample to C2 as stated: cancelling the queued generation of the example
  succeeds and leaves its status \<open>failed\<close>, not \<open>cancelled\<close>.
\<close>

theorem cancel_marks_failed:
  "fst (cancelGeneration broker_up ''gen-1'' ''user-1'' world_1)
     = Json 200 (Cancelled ''Generation request cancelled successfully'' ''gen-1'' 300) \<and>
   map_option status
     (contentGenerations (db (snd (cancelGeneration broker_up ''gen-1'' ''user-1'' world_1))) ''gen-1'')
     = Some ''failed''"
  using cancelGeneration_queued(1,2) [OF world_1_facts(1), of broker_up]
  by (simp add: gen_1_def)

subsection \<open>C3: refunds on cancellation and on dead-lettering\<close>




subsection \<open>C4: permanent errors\<close>



subsection \<open>C5: the retry delays\<close>




subsection \<open>C6: the balance after a successful submission\<close>

text \<open>
  Claim C6: for every submission that succeeds (the handler answers 202), the user's
  balance right after the submission is the balance right before it minus the estimated
  cost, which is also the \<open>estimatedCost\<close> of the response.
\<close>

theorem submission_reserves_estimate:
  assumes "createGenerationRequest env uuid1 uuid2 req w = (Json 202 b, w')"
  shows "\<exists>a cost item.
           creditAccounts (db w) (req_userId req) = Some a \<and>
           estimateGenerationCost (req_promptData req) (request_contentType req) = Fin cost \<and>
           b = Queued ''Content generation request queued successfully'' uuid1 item cost ''queued'' \<and>
           map_option creditsRemaining (creditAccounts (db w') (req_userId req))
             = Some (creditsRemaining a - cost)"
proof (cases rule: createGenerationRequest_cases [of env uuid1 uuid2 req w])
  case (rejected code b)
  then show ?thesis using assms by simp
next
  case not_modelled
  then show ?thesis using assms by simp
next
  case (threw e d1)
  then show ?thesis using assms by simp
next
  case (reserved a cost item d3 r s b' gen)
  from reserved(11) assms obtain ok where r: "r = Inr ok"
    by (cases r) simp_all
  from reserved(11) assms r
  have b: "b = Queued ''Content generation request queued successfully'' uuid1 item cost ''queued''"
    and w': "w' = w\<lparr>db := d3, service := s, mq := b'\<rparr>"
    by simp_all
  show ?thesis
    using reserved(1,2,6) b w' by simp
qed

text \<open>
  Witness for C6: the example request succeeds with an estimate of 300 and takes the
  balance from 1000 to 1000 - 300.
\<close>

theorem submission_reserves_estimate_witness:
  "fst (createGenerationRequest broker_up ''gen-1'' ''item-1'' request_300 world_0)
     = Json 202 (Queued ''Content generation request queued successfully'' ''gen-1'' ''item-1'' 300 ''queued'') \<and>
   map_option creditsRemaining (creditAccounts (db world_0) ''user-1'') = Some 1000 \<and>
   map_option creditsRemaining (creditAccounts (db world_1) ''user-1'') = Some (1000 - 300)"
proof -
  have run: "createGenerationRequest broker_up ''gen-1'' ''item-1'' request_300 world_0
     = (Json 202 (Queued ''Content generation request queued successfully'' ''gen-1'' ''item-1'' 300 ''queued''), world_1)"
    using submit_up by (simp add: world_1_def prod_eq_iff)
  from submission_reserves_estimate [OF run]
  obtain a cost where a: "creditAccounts (db world_0) (req_userId request_300) = Some a"
    and cost: "cost = 300"
    and bal: "map_option creditsRemaining (creditAccounts (db world_1) (req_userId request_300))
                = Some (creditsRemaining a - cost)"
    by auto
  have "a = account_1000" using a by (simp add: world_0_def request_300_def)
  then show ?thesis
    using bal cost submit_up by (simp add: request_300_def account_1000_def world_0_def)
qed

subsection \<open>C7: insufficient credits\<close>

text \<open>
  Claim C7: for every submission whose estimated cost exceeds the user's remaining
  balance, the submission is rejected before any record is written: the state after is
  the state before (no generation, no content item, no reservation, the balance
  unchanged) and the answer is an error response; for a request that gets as far as the
  credit check (valid, its content item and template found) that response is 402
  \<open>Insufficient credits\<close>, with the estimate and the balance.
\<close>

theorem insufficient_credits_rejected:
  assumes "creditAccounts (db w) (req_userId req) = Some a"
    and "estimateGenerationCost (req_promptData req) (request_contentType req) = Fin cost"
    and "creditsRemaining a < cost"
  shows "snd (createGenerationRequest env uuid1 uuid2 req w) = w \<and>
         (\<exists>code b. fst (createGenerationRequest env uuid1 uuid2 req w) = Json code b \<and> code \<noteq> 202) \<and>
         (reaches_credit_check req (db w) \<longrightarrow>
            fst (createGenerationRequest env uuid1 uuid2 req w) =
              Json 402 (InsufficientCredits ''Insufficient credits for this generation'' (Fin cost)
                          (creditsRemaining a)))"
proof -
  have general: "snd (createGenerationRequest env uuid1 uuid2 req w) = w \<and>
         (\<exists>code b. fst (createGenerationRequest env uuid1 uuid2 req w) = Json code b \<and> code \<noteq> 202)"
  proof (cases rule: createGenerationRequest_cases [of env uuid1 uuid2 req w])
    case (rejected code b)
    then show ?thesis by simp
  next
    case not_modelled
    then show ?thesis using assms by simp
  next
    case (threw e d1)
    have "createGenerationRequest env uuid1 uuid2 req w = (Json 402 (InsufficientCredits ''Insufficient credits for this generation'' (Fin cost)
                          (creditsRemaining a)), w) \<or> (\<exists>code b. createGenerationRequest env uuid1 uuid2 req w = (Json code b, w))"
      using assms
      by (auto simp: createGenerationRequest_def less_than_estimate_def split: sum.splits
          dest: existing_content_item_rejects requested_template_rejects)
    then show ?thesis using threw by auto
  next
    case (reserved a' cost' item d3 r s b gen)
    then show ?thesis using assms by simp
  qed
  have specific: "reaches_credit_check req (db w) \<Longrightarrow>
            fst (createGenerationRequest env uuid1 uuid2 req w) =
              Json 402 (InsufficientCredits ''Insufficient credits for this generation'' (Fin cost)
                          (creditsRemaining a))"
    using assms
    by (auto simp: reaches_credit_check_def createGenerationRequest_def less_than_estimate_def
        split: sum.splits)
  show ?thesis using general specific by blast
qed

text \<open>
  Witness for C7: a request for 1500 words against 1000 credits is answered with 402
  (required 1500, available 1000) and leaves the state as it was.
\<close>

theorem insufficient_credits_rejected_witness:
  "createGenerationRequest broker_up ''gen-1'' ''item-1'' request_1500 world_0
     = (Json 402 (InsufficientCredits ''Insufficient credits for this generation'' (Fin 1500) 1000), world_0)"
proof -
  have a: "creditAccounts (db world_0) (req_userId request_1500) = Some account_1000"
    by (simp add: world_0_def request_1500_def request_300_def)
  have est: "estimateGenerationCost (req_promptData request_1500) (request_contentType request_1500) = Fin 1500"
    by (simp add: request_1500_def request_300_def request_contentType_def estimate_1500)
  have less: "creditsRemaining account_1000 < 1500" by (simp add: account_1000_def)
  have reach: "reaches_credit_check request_1500 (db world_0)"
    by (simp add: reaches_credit_check_def request_1500_def request_300_def
        existing_content_item_def requested_template_def request_isNewContent_def str_truthy_def)
  show ?thesis
    using insufficient_credits_rejected [OF a est less, of broker_up "''gen-1''" "''item-1''"] reach
    by (simp add: prod_eq_iff account_1000_def)
qed

subsection \<open>C8: the ledger never goes negative\<close>



subsection \<open>C9: the cost estimate\<close>

text \<open>
  Claim C9 says that for every \<open>promptData\<close> and content type the estimate is an integer
  of at least 100, the rounded-up product of the word count and the three multipliers,
  unknown types and models counting 1. What holds (C9, amended): whenever \<open>wordCount\<close>
  is absent, \<open>null\<close>, a boolean or a number, and neither the content type nor the model
  is the name of a property that object literals inherit (such as \<open>constructor\<close>), the
  estimate is \<open>spec_cost\<close>, the rounded-up product of the specification computed in
  doubles; it is an integer of at least 100 or \<open>Infinity\<close>, and it is an integer of at
  least 100 when the magnitude of \<open>wordCount\<close> is at most \<open>2 ^ 1000\<close>.
\<close>

theorem estimate_is_spec_cost:
  assumes "wordCount promptData \<noteq> Object"
    and "\<not> inherited_key contentType"
    and "case model promptData of None \<Rightarrow> True | Some k \<Rightarrow> \<not> inherited_key k"
  shows "estimateGenerationCost promptData contentType = spec_cost promptData contentType \<and>
         (spec_cost promptData contentType = PosInf \<or>
          (\<exists>n. spec_cost promptData contentType = Fin n \<and> 100 \<le> n)) \<and>
         (magnitude_le (wordCount promptData) (2 ^ 1000) \<longrightarrow>
          (\<exists>n. spec_cost promptData contentType = Fin n \<and> 100 \<le> n))"
proof -
  obtain t where t: "fl (spec_type_multiplier contentType) = Fin t" "0 < t" "t \<le> 2"
    using spec_multipliers(1) [of contentType]
    by (cases "fl (spec_type_multiplier contentType)") simp_all
  obtain m where m: "fl (spec_model_multiplier (model promptData)) = Fin m" "0 < m" "m \<le> 2"
    using spec_multipliers(2) [of "model promptData"]
    by (cases "fl (spec_model_multiplier (model promptData))") simp_all
  obtain s where s: "fl (spec_seo_multiplier (seoOptimize promptData)) = Fin s" "0 < s" "s \<le> 2"
    using spec_multipliers(3) [of "seoOptimize promptData"]
    by (cases "fl (spec_seo_multiplier (seoOptimize promptData))") simp_all
  have eq: "estimateGenerationCost promptData contentType = spec_cost promptData contentType"
    by (simp add: estimateGenerationCost_def Let_def type_multiplier [OF assms(2)]
        model_multiplier [OF assms(3)] js_mul_def word_count [OF assms(1)] ToNumber_lit
        spec_cost_estimate spec_cost_def spec_product_def spec_seo_multiplier_def)
  have "spec_product promptData contentType \<noteq> NaN"
    unfolding spec_product_def t m s
    by (intro num_mul_not_NaN spec_word_count_not_NaN t m s)
  then have range: "spec_cost promptData contentType = PosInf \<or>
          (\<exists>n. spec_cost promptData contentType = Fin n \<and> 100 \<le> n)"
    by (cases "spec_product promptData contentType") (simp_all add: spec_cost_def)
  have bounded: "\<exists>n. spec_cost promptData contentType = Fin n \<and> 100 \<le> n"
    if "magnitude_le (wordCount promptData) (2 ^ 1000)"
  proof -
    define P :: rat where "P = 2 ^ 1000"
    have P1: "1 \<le> P" unfolding P_def by (intro one_le_power) simp
    have "(2::rat) ^ 1024 = 2 ^ 24 * 2 ^ 1000" by (simp only: power_add [symmetric]) simp
    then have big: "(2::rat) ^ 1024 = 16777216 * P" by (simp only: P_def) simp
    from spec_word_count_bounded [OF that]
    obtain x where x: "spec_word_count (wordCount promptData) = Fin x" "\<bar>x\<bar> \<le> P"
      unfolding P_def by auto
    have b1: "4 * P + 1 < 2 ^ 1024" unfolding big using P1 by linarith
    from num_mul_bounded [OF x(2) t(2,3) b1]
    obtain y1 where y1: "num_mul (Fin x) (Fin t) = Fin y1" "\<bar>y1\<bar> \<le> 4 * P + 1" by auto
    have e2: "4 * (4 * P + 1) + 1 = 16 * P + 5" by simp
    have b2: "4 * (4 * P + 1) + 1 < 2 ^ 1024" unfolding big e2 using P1 by linarith
    from num_mul_bounded [OF y1(2) m(2,3) b2]
    obtain y2 where y2: "num_mul (Fin y1) (Fin m) = Fin y2"
      "\<bar>y2\<bar> \<le> 4 * (4 * P + 1) + 1" by auto
    have e3: "4 * (4 * (4 * P + 1) + 1) + 1 = 64 * P + 21" by simp
    have b3: "4 * (4 * (4 * P + 1) + 1) + 1 < 2 ^ 1024" unfolding big e3 using P1 by linarith
    from num_mul_bounded [OF y2(2) s(2,3) b3]
    obtain y3 where y3: "num_mul (Fin y2) (Fin s) = Fin y3" by auto
    have "spec_product promptData contentType = Fin y3"
      by (simp add: spec_product_def t m s x y1 y2 y3)
    then show ?thesis by (simp add: spec_cost_def)
  qed
  show ?thesis using eq range bounded by blast
qed

text \<open>
  Witness for C9 (amended): 1000 words of email with \<open>gpt-4\<close> and SEO optimisation are
  estimated at 1260, the doubles \<open>1000 * 0.7 * 1.5 * 1.2\<close> multiplied from the left
  giving exactly 1260.
\<close>

theorem estimate_is_spec_cost_witness:
  "estimateGenerationCost
     \<lparr>wordCount = Number (Fin 1000), model = Some ''gpt-4'', seoOptimize = Boolean True\<rparr>
     ''email'' = Fin 1260"
proof -
  have "spec_cost \<lparr>wordCount = Number (Fin 1000), model = Some ''gpt-4'',
                    seoOptimize = Boolean True\<rparr> ''email'' = Fin 1260"
    using product_1260
    by (simp add: spec_cost_def spec_product_def spec_word_count_def spec_type_multiplier_def
        spec_model_multiplier_def spec_seo_multiplier_def)
  then show ?thesis
    using estimate_is_spec_cost [of "\<lparr>wordCount = Number (Fin 1000), model = Some ''gpt-4'',
                             seoOptimize = Boolean True\<rparr>" "''email''"]
    by (simp add: inherited_key_def object_prototype_properties_def magnitude_le_def)
qed

text \<open>
  Counterexample to C9 as stated: with an object as \<open>wordCount\<close>, or with the model
  name \<open>constructor\<close>, the product is NaN and so is the estimate; and with a word count
  of \<open>3 * 2 ^ 1022\<close> and the model \<open>gpt-4\<close> the product overflows and the estimate is
  \<open>Infinity\<close>.
\<close>

theorem estimate_can_be_NaN:
  "estimateGenerationCost \<lparr>wordCount = Object, model = None, seoOptimize = Undefined\<rparr> ''blog''
     = NaN \<and>
   estimateGenerationCost
     \<lparr>wordCount = Number (Fin 1000), model = Some ''constructor'', seoOptimize = Undefined\<rparr>
     ''blog'' = NaN \<and>
   estimateGenerationCost
     \<lparr>wordCount = Number (Fin (3 * 2 ^ 1022)), model = Some ''gpt-4'', seoOptimize = Undefined\<rparr>
     ''blog'' = PosInf"
proof -
  have one: "fl (3 * 2 ^ 1022) = Fin (3 * 2 ^ 1022)"
    using fl_eqI [of 1023 "3 * 2 ^ 1022" "3 * 2 ^ 51"] by simp
  have "(2::rat) ^ 1024 \<le> 3 * 2 ^ 1022 * (3 / 2)" by simp
  then have over: "fl (3 * 2 ^ 1022 * (3 / 2)) = PosInf" by (rule fl_overflow)
  show ?thesis
    using one over
    by (simp add: estimateGenerationCost_def js_defs fl_literals)
qed

subsection \<open>C10: queues that are not declared\<close>

text \<open>
  Claim C10 says that for every queue name outside the three declared ones \<open>enqueue\<close>
  throws \<open>Queue <name> is not defined\<close> and publishes nothing, so that queueing a
  scheduling job always fails. What holds (C10, amended): for a name that is neither
  declared nor the name of a property that objects inherit, \<open>enqueue\<close> fails and the
  broker is left as it was; the error is the connection error when a connection has to
  be opened and cannot be, and \<open>Queue <name> is not defined\<close> otherwise.
\<close>

theorem undeclared_queue_rejected:
  assumes "declared_only s" "queue \<notin> set queueDefinitions" "\<not> inherited_key queue"
  shows "enqueue env queue message (s, b) =
           (Inl (if \<not> connected s \<and> \<not> connecting s \<and> \<not> connect_ok env then AmqpConnectError
                 else queue_not_defined queue),
            snd (ensureConnection env s), b)"
proof -
  obtain r s' where ec: "ensureConnection env s = (r, s')"
    by (cases "ensureConnection env s")
  have undefined: "get_property (queues s') queue = Undefined"
    using get_property_undeclared [OF ensureConnection_declared [OF assms(1)] assms(2,3), of env]
    by (simp add: ec)
  have r: "r = (if \<not> connected s \<and> \<not> connecting s \<and> \<not> connect_ok env
                then Some AmqpConnectError else None)"
    using ensureConnection_error [of env s] by (simp add: ec)
  show ?thesis
    by (simp add: enqueue_def ec undefined r)
qed

text \<open>
  Witness for C10 (amended): on a new service with the broker up, queueing to
  \<open>content-scheduling\<close> throws \<open>Queue content-scheduling is not defined\<close> and
  publishes nothing.
\<close>

theorem undeclared_queue_rejected_witness:
  "enqueue broker_up ''content-scheduling'' job_1
     (new_QueueService, \<lparr>published = [], dead_letters = []\<rparr>) =
    (Inl (Error ''Queue content-scheduling is not defined''),
     snd (ensureConnection broker_up new_QueueService), \<lparr>published = [], dead_letters = []\<rparr>)"
  using undeclared_queue_rejected [of new_QueueService "''content-scheduling''" broker_up job_1
      "\<lparr>published = [], dead_letters = []\<rparr>"]
  by (simp add: declared_only_def new_QueueService_def queueDefinitions_def inherited_key_def
      object_prototype_properties_def broker_up_def queue_not_defined_def)

text \<open>
  Counterexample to C10 as stated: the name \<open>constructor\<close> is not declared, yet
  \<open>enqueue\<close> returns \<open>true\<close> and sends the message; and with the broker down, queueing
  to \<open>content-scheduling\<close> throws the connection error, not
  \<open>Queue content-scheduling is not defined\<close>.
\<close>

theorem undeclared_name_not_rejected:
  "enqueue broker_up ''constructor'' job_1 (new_QueueService, \<lparr>published = [], dead_letters = []\<rparr>)
     = (Inr True, snd (ensureConnection broker_up new_QueueService),
        \<lparr>published =
           [(''constructor'',
             \<lparr>content = Some job_1,
              properties = \<lparr>persistent = True, messageId = Some ''gen-1'', headers = None\<rparr>\<rparr>)],
         dead_letters = []\<rparr>) \<and>
   fst (enqueue broker_down ''content-scheduling'' job_1
          (new_QueueService, \<lparr>published = [], dead_letters = []\<rparr>)) = Inl AmqpConnectError"
  by (simp add: queue_defs example_defs js_defs job_1_def Let_def)

end
